theory Spec2Isabelle
  imports Complex_Main "HOL-Library.Char_ord" "HOL-Library.List_Lexorder" "HOL-Library.Multiset"
    "HOL-Library.Log_Nat"
begin

section \<open>Python exceptions\<close>

text \<open>
  Every exception the modelled code can raise is a value of \<open>py_error\<close>; a function that can
  raise returns \<open>py_error + 'a\<close>, with \<open>Inl\<close> for the raise.
\<close>

datatype py_error =
    IndexError
  | TypeError
  | ValueError
  | OverflowError
  | AttributeError
  | FileNotFoundError
  | OSError
  | JSONDecodeError
  | OtherError

section \<open>fs42/series.py: SeriesIndex\<close>

text \<open>
  A Python \<open>str\<close> is a \<open>string\<close>; \<open>sorted\<close> compares strings lexicographically by code
  point, which is the order of \<open>HOL-Library.List_Lexorder\<close> over \<open>HOL-Library.Char_ord\<close>.
  \<open>sorted\<close> is stable and the order is linear, so its result is the one of \<open>sort\<close>.
  The dataclass field \<open>_index\<close> is the record field \<open>index\<close>, a Python int.
\<close>

record SeriesIndex =
  series_name :: string
  episodes :: "string list"
  index :: int

definition sorted_paths :: "string list \<Rightarrow> string list" where
  "sorted_paths paths = sort paths"

definition make_key :: "string \<Rightarrow> string \<Rightarrow> string" where
  "make_key sname sequence_name = sname @ ''-'' @ sequence_name"

definition populate :: "SeriesIndex \<Rightarrow> string list \<Rightarrow> SeriesIndex" where
  "populate s file_list = s\<lparr>episodes := sorted_paths file_list, index := 0\<rparr>"

definition get_series_length :: "SeriesIndex \<Rightarrow> int" where
  "get_series_length s = int (length (episodes s))"

text \<open>
  \<open>self.episodes[self._index]\<close> is Python list indexing: a negative index counts from the
  end, and an index out of range raises IndexError. \<open>%\<close> with a positive modulus is \<open>mod\<close>
  on \<open>int\<close>. The result is the returned value and the object after the call.
\<close>

definition py_getitem :: "'a list \<Rightarrow> int \<Rightarrow> py_error + 'a" where
  "py_getitem xs i =
     (if i < - int (length xs) \<or> int (length xs) \<le> i then Inl IndexError
      else Inr (xs ! nat (if i < 0 then i + int (length xs) else i)))"

definition get_next :: "SeriesIndex \<Rightarrow> py_error + (string option \<times> SeriesIndex)" where
  "get_next s =
     (if episodes s = [] then Inr (None, s)
      else case py_getitem (episodes s) (index s) of
             Inl e \<Rightarrow> Inl e
           | Inr episode \<Rightarrow>
               Inr (Some episode, s\<lparr>index := (index s + 1) mod int (length (episodes s))\<rparr>))"

text \<open>\<open>k\<close> successive calls of \<open>get_next\<close>: the values returned, in order, and the final object.\<close>

fun get_next_n :: "nat \<Rightarrow> SeriesIndex \<Rightarrow> py_error + (string option list \<times> SeriesIndex)" where
  "get_next_n 0 s = Inr ([], s)"
| "get_next_n (Suc k) s =
     (case get_next s of
        Inl e \<Rightarrow> Inl e
      | Inr (r, s') \<Rightarrow>
          (case get_next_n k s' of
             Inl e \<Rightarrow> Inl e
           | Inr (rs, s'') \<Rightarrow> Inr (r # rs, s'')))"

section \<open>Python values and library functions\<close>

text \<open>
  A Python float is a finite real or one of the three special values; the rounding of float
  arithmetic is not modelled: wall-clock seconds (\<open>time.time()\<close>, \<open>st_mtime\<close>) and the
  fade constants are reals, and the arithmetic on them is exact.
\<close>

datatype pyfloat = Finite real | PosInf | NegInf | NaN

text \<open>
  What \<open>json.loads\<close> returns. An object is the list of its items in insertion order;
  \<open>map_of\<close> is the lookup.
\<close>

datatype json =
    JNull
  | JBool bool
  | JInt int
  | JFloat pyfloat
  | JStr string
  | JList "json list"
  | JObj "(string \<times> json) list"

text \<open>Truth value testing, as \<open>if x\<close>, \<open>not x\<close>, \<open>x or y\<close> do it.\<close>

fun truthy :: "json \<Rightarrow> bool" where
  "truthy JNull = False"
| "truthy (JBool b) = b"
| "truthy (JInt n) = (n \<noteq> 0)"
| "truthy (JFloat f) = (f \<noteq> Finite 0)"
| "truthy (JStr s) = (s \<noteq> [])"
| "truthy (JList xs) = (xs \<noteq> [])"
| "truthy (JObj kvs) = (kvs \<noteq> [])"

definition py_or :: "json \<Rightarrow> json \<Rightarrow> json" where
  "py_or a b = (if truthy a then a else b)"

text \<open>
  A \<open>datetime\<close>: its wall-clock reading in microseconds counted from 1970-01-01T00:00:00
  on its own clock, and its UTC offset in microseconds (None for a naive datetime).
  A datetime that is aware and in UTC is represented by its instant alone, an \<open>int\<close> of
  microseconds since the epoch.
\<close>

record pydatetime =
  wall_us :: int
  utcoffset :: "int option"

text \<open>
  The functions of the Python library whose code is not part of the repository are taken
  as parameters: the conversion of strings to numbers, of integers to floats, the
  \<open>repr\<close> of a value that is not a string, and the ISO-8601 reader and writer.
  None is the library's exception (ValueError, or OverflowError for \<open>int_to_float\<close>).
\<close>

record pylib =
  str_to_int :: "string \<Rightarrow> int option"
  str_to_float :: "string \<Rightarrow> pyfloat option"
  int_to_float :: "int \<Rightarrow> pyfloat option"
  repr_json :: "json \<Rightarrow> string"
  fromisoformat :: "string \<Rightarrow> pydatetime option"
  isoformat :: "pydatetime \<Rightarrow> string"
  utcfromtimestamp :: "json \<Rightarrow> py_error + pydatetime"
  json_dumps :: "json \<Rightarrow> string"

definition ebind :: "py_error + 'a \<Rightarrow> ('a \<Rightarrow> py_error + 'b) \<Rightarrow> py_error + 'b" where
  "ebind m f = (case m of Inl e \<Rightarrow> Inl e | Inr x \<Rightarrow> f x)"

text \<open>\<open>int(x)\<close>, \<open>float(x)\<close> and \<open>str(x)\<close> on the values above.\<close>

fun py_int :: "pylib \<Rightarrow> json \<Rightarrow> py_error + int" where
  "py_int lib JNull = Inl TypeError"
| "py_int lib (JBool b) = Inr (if b then 1 else 0)"
| "py_int lib (JInt n) = Inr n"
| "py_int lib (JFloat (Finite x)) = Inr (if 0 \<le> x then \<lfloor>x\<rfloor> else \<lceil>x\<rceil>)"
| "py_int lib (JFloat NaN) = Inl ValueError"
| "py_int lib (JFloat PosInf) = Inl OverflowError"
| "py_int lib (JFloat NegInf) = Inl OverflowError"
| "py_int lib (JStr s) = (case str_to_int lib s of None \<Rightarrow> Inl ValueError | Some n \<Rightarrow> Inr n)"
| "py_int lib (JList xs) = Inl TypeError"
| "py_int lib (JObj kvs) = Inl TypeError"

fun py_float :: "pylib \<Rightarrow> json \<Rightarrow> py_error + pyfloat" where
  "py_float lib JNull = Inl TypeError"
| "py_float lib (JBool b) = Inr (Finite (if b then 1 else 0))"
| "py_float lib (JInt n) = (case int_to_float lib n of None \<Rightarrow> Inl OverflowError | Some f \<Rightarrow> Inr f)"
| "py_float lib (JFloat f) = Inr f"
| "py_float lib (JStr s) = (case str_to_float lib s of None \<Rightarrow> Inl ValueError | Some f \<Rightarrow> Inr f)"
| "py_float lib (JList xs) = Inl TypeError"
| "py_float lib (JObj kvs) = Inl TypeError"

fun py_str :: "pylib \<Rightarrow> json \<Rightarrow> string" where
  "py_str lib (JStr s) = s"
| "py_str lib v = repr_json lib v"

section \<open>fs42/overlays/infobar\_sv.py\<close>

subsection \<open>Config\<close>

definition VIS_SECONDS :: real where "VIS_SECONDS = 5"
definition FADE_IN :: real where "FADE_IN = 18 / 100"
definition FADE_OUT :: real where "FADE_OUT = 28 / 100"

subsection \<open>InfobarEvent\<close>

text \<open>
  \<open>from_json\<close> is the only constructor of events in the repository, and it makes every
  datetime aware and in UTC: \<open>start\<close>, \<open>end\<close> and \<open>next_start\<close> are instants. The field
  \<open>end\<close> is written \<open>end_utc\<close>.
\<close>

record InfobarEvent =
  channel_number :: int
  channel_name :: string
  title :: string
  start :: int
  end_utc :: int
  ts :: pyfloat
  next_title :: "string option"
  next_start :: "int option"

text \<open>
  The instants of 0001-01-01T00:00:00 and 9999-12-31T23:59:59.999999 UTC: \<open>astimezone\<close>
  raises OverflowError when the shifted datetime leaves this range.
\<close>

definition MIN_US :: int where "MIN_US = - 62135596800000000"
definition MAX_US :: int where "MAX_US = 253402300799999999"

text \<open>
  \<open>parse_iso\<close>, the local function of \<open>from_json\<close>. Its argument is the value found in the
  payload, JNull for Python's None. \<open>fromisoformat\<close> raises TypeError on a value that is
  not a string and ValueError on a string it cannot read. \<open>replace(tzinfo=utc)\<close> keeps
  the wall-clock reading; \<open>astimezone(utc)\<close> subtracts the offset.
\<close>

definition parse_iso :: "pylib \<Rightarrow> json \<Rightarrow> py_error + int option" where
  "parse_iso lib s =
     (if \<not> truthy s then Inr None
      else case s of
             JStr str \<Rightarrow>
               (case fromisoformat lib str of
                  None \<Rightarrow> Inl ValueError
                | Some dt \<Rightarrow>
                    (case utcoffset dt of
                       None \<Rightarrow> Inr (Some (wall_us dt))
                     | Some off \<Rightarrow>
                         (if MIN_US \<le> wall_us dt - off \<and> wall_us dt - off \<le> MAX_US
                          then Inr (Some (wall_us dt - off))
                          else Inl OverflowError)))
           | _ \<Rightarrow> Inl TypeError)"

text \<open>
  The clock readings of one call of \<open>from_json\<close>: the two \<open>datetime.now(timezone.utc)\<close>
  (the defaults of \<open>start\<close> and \<open>end\<close>) and \<open>time.time()\<close> (the default of \<open>ts\<close>).
\<close>

record parse_clock =
  now_start :: int
  now_end :: int
  time_ts :: real

definition dict_get :: "(string \<times> json) list \<Rightarrow> string \<Rightarrow> json \<Rightarrow> json" where
  "dict_get kvs k dflt = (case map_of kvs k of None \<Rightarrow> dflt | Some v \<Rightarrow> v)"

text \<open>
  The keyword arguments are evaluated in the order of the source, so the first conversion
  that fails decides the exception. A payload that is not an object has no \<open>get\<close>.
\<close>

definition from_json :: "pylib \<Rightarrow> parse_clock \<Rightarrow> json \<Rightarrow> py_error + InfobarEvent" where
  "from_json lib clk d =
     (case d of
        JObj kvs \<Rightarrow>
          ebind (py_int lib (dict_get kvs ''channel_number'' (JInt 0))) (\<lambda>cn.
          ebind (parse_iso lib (dict_get kvs ''start'' JNull)) (\<lambda>st.
          ebind (parse_iso lib (dict_get kvs ''end'' JNull)) (\<lambda>en.
          ebind (py_float lib (dict_get kvs ''ts'' (JFloat (Finite (time_ts clk))))) (\<lambda>t.
          ebind (if truthy (dict_get kvs ''next_start'' JNull)
                 then parse_iso lib (dict_get kvs ''next_start'' JNull) else Inr None) (\<lambda>ns.
          Inr \<lparr>channel_number = cn,
               channel_name = py_str lib (dict_get kvs ''channel_name'' (JStr [])),
               title = py_str lib (dict_get kvs ''title'' (JStr [])),
               start = (case st of None \<Rightarrow> now_start clk | Some x \<Rightarrow> x),
               end_utc = (case en of None \<Rightarrow> now_end clk | Some x \<Rightarrow> x),
               ts = t,
               next_title = (if truthy (dict_get kvs ''next_title'' JNull)
                             then Some (py_str lib (dict_get kvs ''next_title'' JNull)) else None),
               next_start = ns\<rparr>)))))
      | _ \<Rightarrow> Inl AttributeError)"

subsection \<open>InfoBarRenderer\<close>

text \<open>
  Formatting of integers: \<open>f"{n}"\<close> and \<open>f"{n:02d}"\<close> (the sign, then the decimal digits
  padded with zeros to a total width of two).
\<close>

definition digit_char :: "nat \<Rightarrow> char" where
  "digit_char d = ''0123456789'' ! d"

fun dec_nat :: "nat \<Rightarrow> string" where
  "dec_nat n = (if n < 10 then [digit_char n] else dec_nat (n div 10) @ [digit_char (n mod 10)])"

declare dec_nat.simps [simp del]

definition fmt_d :: "int \<Rightarrow> string" where
  "fmt_d n = (if n < 0 then CHR ''-'' # dec_nat (nat (- n)) else dec_nat (nat n))"

definition fmt_02d :: "int \<Rightarrow> string" where
  "fmt_02d n =
     (if n < 0 then CHR ''-'' # dec_nat (nat (- n))
      else if n < 10 then CHR ''0'' # dec_nat (nat n)
      else dec_nat (nat n))"

text \<open>
  \<open>total_seconds()\<close> and \<open>timestamp()\<close> divide a whole number of microseconds by \<open>10^6\<close>
  and return the double nearest to the quotient, ties to even: with \<open>2^e \<le> |x| < 2^(e+1)\<close>
  the doubles around \<open>x\<close> are the multiples of \<open>2^(e-52)\<close>. The quotients of datetimes lie
  far inside the range of normal doubles, so overflow and subnormal numbers do not arise.
  \<open>int(x)\<close> of a float truncates toward zero.
\<close>

definition round_half_even :: "real \<Rightarrow> int" where
  "round_half_even y =
     (if y - of_int \<lfloor>y\<rfloor> < 1 / 2 then \<lfloor>y\<rfloor>
      else if 1 / 2 < y - of_int \<lfloor>y\<rfloor> then \<lfloor>y\<rfloor> + 1
      else if even \<lfloor>y\<rfloor> then \<lfloor>y\<rfloor> else \<lfloor>y\<rfloor> + 1)"

definition pow2 :: "int \<Rightarrow> real" where
  "pow2 k = (if 0 \<le> k then 2 ^ nat k else 1 / 2 ^ nat (- k))"

definition float_exponent :: "real \<Rightarrow> int" where
  "float_exponent x = (if 1 \<le> x then bitlen \<lfloor>x\<rfloor> - 1 else - bitlen (\<lceil>1 / x\<rceil> - 1))"

definition round_double :: "real \<Rightarrow> real" where
  "round_double x =
     (if x = 0 then 0
      else sgn x * (of_int (round_half_even (\<bar>x\<bar> / pow2 (float_exponent \<bar>x\<bar> - 52)))
                     * pow2 (float_exponent \<bar>x\<bar> - 52)))"

definition py_trunc :: "real \<Rightarrow> int" where
  "py_trunc r = (if 0 \<le> r then \<lfloor>r\<rfloor> else \<lceil>r\<rceil>)"

text \<open>
  \<open>int(d.total_seconds())\<close> and \<open>int(dt.timestamp())\<close> for a difference, or an instant, of
  \<open>us\<close> microseconds.
\<close>

definition trunc_seconds :: "int \<Rightarrow> int" where
  "trunc_seconds us = py_trunc (round_double (of_int us / 1000000))"

definition fmt_remaining :: "int \<Rightarrow> int \<Rightarrow> string" where
  "fmt_remaining now_utc end_utc' =
     (let secs0 = trunc_seconds (end_utc' - now_utc);
          secs = (if secs0 < 0 then 0 else secs0);
          h = secs div 3600;
          m = (secs mod 3600) div 60
      in ''Remaining time '' @ fmt_02d h @ '':'' @ fmt_02d m @ '' Hours'')"

text \<open>\<open>strftime("%H:%M")\<close> of an instant, read in UTC.\<close>

definition strftime_HM :: "int \<Rightarrow> string" where
  "strftime_HM t =
     fmt_02d ((t div 3600000000) mod 24) @ '':'' @ fmt_02d ((t div 60000000) mod 60)"

text \<open>
  The composited image is represented by the strings drawn into it; geometry, fonts, colours
  and the static menu row do not depend on the event and are left out. The calls into the
  imaging and graphics libraries are taken to succeed.
\<close>

record infobar_image =
  img_number :: string
  img_name :: string
  img_title :: string
  img_remaining :: string
  img_next :: "string option"

definition draw_infobar_image :: "int \<Rightarrow> InfobarEvent \<Rightarrow> infobar_image" where
  "draw_infobar_image now_utc ev =
     \<lparr>img_number = fmt_d (channel_number ev),
      img_name = channel_name ev,
      img_title = title ev,
      img_remaining = fmt_remaining now_utc (end_utc ev),
      img_next =
        (case next_title ev of
           None \<Rightarrow> None
         | Some nt \<Rightarrow>
             (if nt = [] then None
              else Some (case next_start ev of
                           None \<Rightarrow> nt
                         | Some t \<Rightarrow> nt @ ''  '' @ strftime_HM t)))\<rparr>"

type_synonym img_key = "int \<times> string \<times> string \<times> int \<times> string option \<times> int"

definition cache_key :: "InfobarEvent \<Rightarrow> img_key" where
  "cache_key ev =
     (channel_number ev, channel_name ev, title ev, trunc_seconds (end_utc ev),
      next_title ev, (case next_start ev of None \<Rightarrow> 0 | Some t \<Rightarrow> trunc_seconds t))"

text \<open>
  The renderer: \<open>current_img_key\<close>, the image last uploaded to the texture, and two
  counters (not in the source) of the calls of \<open>_draw_infobar_image\<close> and \<open>upload_pil\<close>.
\<close>

record InfoBarRenderer =
  current_img_key :: "img_key option"
  tex_image :: "infobar_image option"
  n_draw_image :: nat
  n_upload :: nat

definition ensure_texture :: "InfoBarRenderer \<Rightarrow> int \<Rightarrow> InfobarEvent \<Rightarrow> InfoBarRenderer" where
  "ensure_texture r now_utc ev =
     (if Some (cache_key ev) \<noteq> current_img_key r
      then r\<lparr>tex_image := Some (draw_infobar_image now_utc ev),
             n_draw_image := Suc (n_draw_image r),
             n_upload := Suc (n_upload r),
             current_img_key := Some (cache_key ev)\<rparr>
      else r)"

subsection \<open>OverlayApp\<close>

datatype fade = Idle | FadeIn | Hold | FadeOut

text \<open>
  The fields of \<open>OverlayApp\<close> that the event path and the frame loop touch; \<open>fade_state\<close>
  is "idle", "in", "hold" or "out". Two fields are not in the source: \<open>draw_calls\<close> lists
  the alpha of every \<open>renderer.draw\<close> so far, \<open>file_reads\<close> counts the times the event
  file was opened.
\<close>

record OverlayApp =
  renderer :: InfoBarRenderer
  visible_until :: real
  fade_state :: fade
  fade_t0 :: real
  event :: "InfobarEvent option"
  file_mtime :: real
  draw_calls :: "real list"
  file_reads :: nat

definition init_app :: OverlayApp where
  "init_app =
     \<lparr>renderer = \<lparr>current_img_key = None, tex_image = None, n_draw_image = 0, n_upload = 0\<rparr>,
      visible_until = 0, fade_state = Idle, fade_t0 = 0, event = None, file_mtime = 0,
      draw_calls = [], file_reads = 0\<rparr>"

text \<open>
  \<open>_on_event\<close>: \<open>now_utc\<close> is the \<open>datetime.now\<close> read while the image is drawn, \<open>t\<close> the
  \<open>time.time()\<close> read after \<open>ensure_texture\<close>.
\<close>

definition on_event :: "OverlayApp \<Rightarrow> int \<Rightarrow> real \<Rightarrow> InfobarEvent \<Rightarrow> OverlayApp" where
  "on_event app now_utc t ev =
     app\<lparr>event := Some ev,
         renderer := ensure_texture (renderer app) now_utc ev,
         fade_state := FadeIn,
         fade_t0 := t,
         visible_until := t + FADE_IN + VIS_SECONDS + FADE_OUT\<rparr>"

text \<open>
  What one poll finds outside the program: the outcome of \<open>os.stat\<close> (the modification
  time, or the exception), the outcome of opening the file and \<open>json.load\<close>, and the clock
  readings of the parse and of \<open>_on_event\<close>.
\<close>

record poll_env =
  stat_result :: "py_error + real"
  load_result :: "py_error + json"
  parse_clk :: parse_clock
  render_now :: int
  event_time :: real

text \<open>
  \<open>_poll_file\<close>. Both \<open>except\<close> clauses pass, so every exception ends the poll with the
  assignments made so far: the modification time is stored before the file is opened.
\<close>

definition poll_file :: "pylib \<Rightarrow> poll_env \<Rightarrow> OverlayApp \<Rightarrow> OverlayApp" where
  "poll_file lib env app =
     (case stat_result env of
        Inl e \<Rightarrow> app
      | Inr mtime \<Rightarrow>
          (if mtime > file_mtime app
           then (let app1 = app\<lparr>file_mtime := mtime, file_reads := Suc (file_reads app)\<rparr>
                 in case load_result env of
                      Inl e \<Rightarrow> app1
                    | Inr payload \<Rightarrow>
                        (case from_json lib (parse_clk env) payload of
                           Inl e \<Rightarrow> app1
                         | Inr ev \<Rightarrow> on_event app1 (render_now env) (event_time env) ev))
           else app))"

text \<open>
  The datagram path: one iteration of the loop of \<open>_udp_listener\<close> after a datagram has
  arrived; \<open>Inl\<close> is a payload that \<open>json.loads\<close> rejects.
\<close>

definition udp_deliver ::
    "pylib \<Rightarrow> parse_clock \<Rightarrow> int \<Rightarrow> real \<Rightarrow> py_error + json \<Rightarrow> OverlayApp \<Rightarrow> OverlayApp" where
  "udp_deliver lib clk now_utc t loaded app =
     (case loaded of
        Inl e \<Rightarrow> app
      | Inr payload \<Rightarrow>
          (case from_json lib clk payload of
             Inl e \<Rightarrow> app
           | Inr ev \<Rightarrow> on_event app now_utc t ev))"

text \<open>
  The body of the loop of \<open>run\<close> after \<open>_poll_file\<close>: the alpha of the frame at time
  \<open>now\<close>, and the application after it.
\<close>

definition run_frame :: "real \<Rightarrow> OverlayApp \<Rightarrow> OverlayApp \<times> real" where
  "run_frame now app =
     (if event app \<noteq> None \<and> now < visible_until app
      then (let t = now - fade_t0 app
            in if t < FADE_IN
               then (app\<lparr>fade_state := FadeIn, draw_calls := draw_calls app @ [t / FADE_IN]\<rparr>,
                     t / FADE_IN)
               else if t < FADE_IN + VIS_SECONDS
               then (app\<lparr>fade_state := Hold, draw_calls := draw_calls app @ [1]\<rparr>, 1)
               else (app\<lparr>fade_state := FadeOut,
                         draw_calls := draw_calls app
                           @ [max 0 (1 - (t - (FADE_IN + VIS_SECONDS)) / FADE_OUT)]\<rparr>,
                     max 0 (1 - (t - (FADE_IN + VIS_SECONDS)) / FADE_OUT)))
      else (app, 0))"

text \<open>Frames at the times of a list, in order, with no event accepted in between.\<close>

fun run_frames :: "real list \<Rightarrow> OverlayApp \<Rightarrow> OverlayApp \<times> real list" where
  "run_frames [] app = (app, [])"
| "run_frames (now # rest) app =
     (case run_frame now app of
        (app1, a) \<Rightarrow> (case run_frames rest app1 of (app2, as) \<Rightarrow> (app2, a # as)))"

section \<open>fs42/overlays/bridge.py\<close>

text \<open>
  What the producer acts on: whether the directory of \<open>EVENT_FILE\<close> exists, the contents
  of \<open>EVENT_FILE\<close> (None when there is no such file), and the datagrams sent to
  \<open>UDP_ADDR\<close>, oldest first.
\<close>

record bridge_world =
  dir_exists :: bool
  event_file :: "string option"
  datagrams :: "string list"

text \<open>
  What one call of \<open>send_infobar_event\<close> finds outside the program: the clock readings
  (\<open>time.time()\<close> and the \<open>datetime.utcnow()\<close> of \<open>_iso\<close> for a missing \<open>start\<close> and
  \<open>end\<close>) and the outcome of each system call. \<open>write_fail\<close> is the exception of
  \<open>json.dump\<close> with the number of characters that reached the file before it.
\<close>

record bridge_io =
  clock_ts :: real
  utcnow_start :: int
  utcnow_end :: int
  makedirs_fail :: "py_error option"
  open_fail :: "py_error option"
  write_fail :: "(py_error \<times> nat) option"
  socket_fail :: bool
  sendto_fail :: bool

definition iso :: "pylib \<Rightarrow> int \<Rightarrow> pydatetime option \<Rightarrow> string" where
  "iso lib utcnow dt =
     (let d = (case dt of None \<Rightarrow> \<lparr>wall_us = utcnow, utcoffset = None\<rparr> | Some d0 \<Rightarrow> d0)
      in isoformat lib (d\<lparr>wall_us := wall_us d - wall_us d mod 1000000\<rparr>))"

text \<open>
  The payload dictionary, in insertion order. \<open>next_title\<close> is whatever the caller passed
  (JNull for None): the hook passes the extracted value unconverted.
\<close>

definition make_payload ::
    "pylib \<Rightarrow> bridge_io \<Rightarrow> int \<Rightarrow> string \<Rightarrow> string \<Rightarrow> pydatetime option \<Rightarrow> pydatetime option
      \<Rightarrow> json \<Rightarrow> pydatetime option \<Rightarrow> json" where
  "make_payload lib io cnum cname ttl st en ntitle nstart =
     JObj ([(''ts'', JFloat (Finite (clock_ts io))),
            (''channel_number'', JInt cnum),
            (''channel_name'', JStr cname),
            (''title'', JStr ttl),
            (''start'', JStr (iso lib (utcnow_start io) st)),
            (''end'', JStr (iso lib (utcnow_end io) en))]
           @ (if truthy ntitle then [(''next_title'', JStr (py_str lib ntitle))] else [])
           @ (case nstart of
                None \<Rightarrow> []
              | Some d \<Rightarrow> [(''next_start'', JStr (iso lib 0 (Some d)))]))"

text \<open>
  \<open>send_infobar_event\<close>: the outcome of the call and the world after it. An exception of
  \<open>os.makedirs\<close>, \<open>open\<close> or \<open>json.dump\<close> propagates; an OSError of the socket calls is
  passed over.
\<close>

definition send_infobar_event ::
    "pylib \<Rightarrow> bridge_io \<Rightarrow> bridge_world \<Rightarrow> int \<Rightarrow> string \<Rightarrow> string \<Rightarrow> pydatetime option
      \<Rightarrow> pydatetime option \<Rightarrow> json \<Rightarrow> pydatetime option \<Rightarrow> (py_error + unit) \<times> bridge_world" where
  "send_infobar_event lib io w cnum cname ttl st en ntitle nstart =
     (let payload = make_payload lib io cnum cname ttl st en ntitle nstart
      in case makedirs_fail io of
           Some e \<Rightarrow> (Inl e, w)
         | None \<Rightarrow>
             (case open_fail io of
                Some e \<Rightarrow> (Inl e, w\<lparr>dir_exists := True\<rparr>)
              | None \<Rightarrow>
                  (case write_fail io of
                     Some (e, n) \<Rightarrow>
                       (Inl e, w\<lparr>dir_exists := True,
                                 event_file := Some (take n (json_dumps lib payload))\<rparr>)
                   | None \<Rightarrow>
                       (Inr (),
                        w\<lparr>dir_exists := True,
                          event_file := Some (json_dumps lib payload),
                          datagrams :=
                            (if socket_fail io \<or> sendto_fail io then datagrams w
                             else datagrams w @ [json_dumps lib payload])\<rparr>))))"

section \<open>fs42/overlays/monkey\_infobar\_hook.py\<close>

text \<open>\<open>x.get(k)\<close> on a value that may not be a dictionary.\<close>

definition obj_get :: "json \<Rightarrow> string \<Rightarrow> py_error + json" where
  "obj_get v k = (case v of JObj kvs \<Rightarrow> Inr (dict_get kvs k JNull) | _ \<Rightarrow> Inl AttributeError)"

text \<open>\<open>(payload.get(outer) or {}).get(k)\<close>\<close>

definition sub_get :: "(string \<times> json) list \<Rightarrow> string \<Rightarrow> string \<Rightarrow> py_error + json" where
  "sub_get kvs outer k =
     (if truthy (dict_get kvs outer JNull) then obj_get (dict_get kvs outer JNull) k
      else Inr JNull)"

text \<open>\<open>d.get(k1) or d.get(k2)\<close>\<close>

definition get_or :: "json \<Rightarrow> string \<Rightarrow> string \<Rightarrow> py_error + json" where
  "get_or d k1 k2 =
     ebind (obj_get d k1) (\<lambda>a. if truthy a then Inr a else obj_get d k2)"

definition to_dt :: "pylib \<Rightarrow> json \<Rightarrow> py_error + pydatetime option" where
  "to_dt lib x =
     (if \<not> truthy x then Inr None
      else case x of
             JBool b \<Rightarrow> ebind (utcfromtimestamp lib x) (\<lambda>d. Inr (Some d))
           | JInt n \<Rightarrow> ebind (utcfromtimestamp lib x) (\<lambda>d. Inr (Some d))
           | JFloat f \<Rightarrow> ebind (utcfromtimestamp lib x) (\<lambda>d. Inr (Some d))
           | JStr s \<Rightarrow> Inr (fromisoformat lib s)
           | _ \<Rightarrow> Inr None)"

text \<open>\<open>_extract\<close>, written \<open>hook_extract\<close>.\<close>

type_synonym extracted =
  "int \<times> string \<times> string \<times> pydatetime option \<times> pydatetime option \<times> json \<times> pydatetime option"

definition hook_extract :: "pylib \<Rightarrow> (string \<times> json) list \<Rightarrow> py_error + extracted" where
  "hook_extract lib payload =
     ebind (if truthy (dict_get payload ''channel_number'' JNull)
            then Inr (dict_get payload ''channel_number'' JNull)
            else if truthy (dict_get payload ''channelNum'' JNull)
            then Inr (dict_get payload ''channelNum'' JNull)
            else ebind (sub_get payload ''channel'' ''number'') (\<lambda>c. Inr (py_or c (JInt 0))))
       (\<lambda>ch_num.
     ebind (if truthy (dict_get payload ''channel_name'' JNull)
            then Inr (dict_get payload ''channel_name'' JNull)
            else ebind (sub_get payload ''channel'' ''name'') (\<lambda>c. Inr (py_or c (JStr []))))
       (\<lambda>ch_name.
     (let now = py_or (dict_get payload ''now'' JNull)
                  (py_or (dict_get payload ''current'' JNull)
                     (py_or (dict_get payload ''programme'' JNull) (JObj [])));
          nxt = py_or (dict_get payload ''next'' JNull)
                  (py_or (dict_get payload ''up_next'' JNull) (JObj []))
      in ebind (get_or now ''title'' ''name'') (\<lambda>nt0.
         ebind (get_or now ''start'' ''start_time'') (\<lambda>ns0.
         ebind (to_dt lib ns0) (\<lambda>now_st.
         ebind (get_or now ''end'' ''end_time'') (\<lambda>ne0.
         ebind (to_dt lib ne0) (\<lambda>now_en.
         ebind (get_or nxt ''title'' ''name'') (\<lambda>ntitle.
         ebind (get_or nxt ''start'' ''start_time'') (\<lambda>xs0.
         ebind (to_dt lib xs0) (\<lambda>nstart.
         ebind (py_int lib ch_num) (\<lambda>n.
         Inr (n, py_str lib ch_name, py_str lib (py_or nt0 (JStr [])),
              now_st, now_en, ntitle, nstart)))))))))))))"

text \<open>
  The first dictionary among the positional arguments, else the first among the keyword
  arguments' values.
\<close>

fun is_dict :: "json \<Rightarrow> bool" where
  "is_dict (JObj kvs) = True"
| "is_dict v = False"

definition find_payload :: "json list \<Rightarrow> (string \<times> json) list \<Rightarrow> json option" where
  "find_payload args kwargs =
     (case find is_dict args of
        Some a \<Rightarrow> Some a
      | None \<Rightarrow> find is_dict (map snd kwargs))"

text \<open>
  The wrapper \<open>update_status_socket\<close>. \<open>orig\<close> is the outcome of the original function on
  the same arguments: its return value, or the exception it raised, which ends the call.
  Everything after it that can raise stands under \<open>except Exception: pass\<close>.
\<close>

definition update_status_socket ::
    "pylib \<Rightarrow> bridge_io \<Rightarrow> bridge_world \<Rightarrow> py_error + 'r \<Rightarrow> json list \<Rightarrow> (string \<times> json) list
      \<Rightarrow> (py_error + 'r) \<times> bridge_world" where
  "update_status_socket lib io w orig args kwargs =
     (case orig of
        Inl e \<Rightarrow> (Inl e, w)
      | Inr rv \<Rightarrow>
          (case find_payload args kwargs of
             Some (JObj payload) \<Rightarrow>
               (if payload \<noteq> []
                then (case hook_extract lib payload of
                        Inl e \<Rightarrow> (Inr rv, w)
                      | Inr (ch_num, ch_name, now_title, now_st, now_en, ntitle, nstart) \<Rightarrow>
                          (if ch_name \<noteq> [] \<and> now_title \<noteq> []
                           then (Inr rv,
                                 snd (send_infobar_event lib io w ch_num ch_name now_title
                                        now_st now_en ntitle nstart))
                           else (Inr rv, w)))
                else (Inr rv, w))
           | _ \<Rightarrow> (Inr rv, w)))"

section \<open>A library instance\<close>

text \<open>
  The theorems below hold for every \<open>pylib\<close>. To run the model on concrete inputs one
  instance is defined, covering the plain forms only: decimal integers, timestamps
  \<open>YYYY-MM-DDTHH:MM:SS[.ffffff][+HH:MM]\<close>, whole numbers of seconds since the
  epoch, and JSON text of values whose strings are printable ASCII and whose floats are
  whole. On these it computes what CPython computes; it rejects every other string.
\<close>

definition digit_val :: "char \<Rightarrow> nat option" where
  "digit_val c =
     (if c \<in> set ''0123456789'' then Some (of_char c - 48) else None)"

fun parse_nat :: "nat \<Rightarrow> string \<Rightarrow> nat option" where
  "parse_nat acc [] = Some acc"
| "parse_nat acc (c # cs) =
     (case digit_val c of None \<Rightarrow> None | Some d \<Rightarrow> parse_nat (10 * acc + d) cs)"

definition read_nat :: "string \<Rightarrow> nat option" where
  "read_nat s = (if s = [] then None else parse_nat 0 s)"

definition read_int :: "string \<Rightarrow> int option" where
  "read_int s =
     (case s of
        [] \<Rightarrow> None
      | c # cs \<Rightarrow>
          (if c = CHR ''-'' then map_option (\<lambda>n. - int n) (read_nat cs)
           else if c = CHR ''+'' then map_option int (read_nat cs)
           else map_option int (read_nat s)))"

definition is_leap :: "int \<Rightarrow> bool" where
  "is_leap y = (y mod 4 = 0 \<and> (y mod 100 \<noteq> 0 \<or> y mod 400 = 0))"

definition days_in_month :: "int \<Rightarrow> int \<Rightarrow> int" where
  "days_in_month y m =
     (if m = 2 then (if is_leap y then 29 else 28)
      else if m = 4 \<or> m = 6 \<or> m = 9 \<or> m = 11 then 30 else 31)"

text \<open>Days from 1970-01-01 to the given date of the proleptic Gregorian calendar.\<close>

definition days_from_civil :: "int \<Rightarrow> int \<Rightarrow> int \<Rightarrow> int" where
  "days_from_civil y m d =
     (let y1 = (if m \<le> 2 then y - 1 else y);
          era = y1 div 400;
          yoe = y1 - era * 400;
          mp = (if m > 2 then m - 3 else m + 9);
          doy = (153 * mp + 2) div 5 + d - 1;
          doe = yoe * 365 + yoe div 4 - yoe div 100 + doy
      in era * 146097 + doe - 719468)"

text \<open>The date (year, month, day) of a day counted from 1970-01-01.\<close>

definition civil_from_days :: "int \<Rightarrow> int \<times> int \<times> int" where
  "civil_from_days z0 =
     (let z = z0 + 719468;
          era = z div 146097;
          doe = z - era * 146097;
          yoe = (doe - doe div 1460 + doe div 36524 - doe div 146096) div 365;
          doy = doe - (365 * yoe + yoe div 4 - yoe div 100);
          mp = (5 * doy + 2) div 153;
          d = doy - (153 * mp + 2) div 5 + 1;
          m = (if mp < 10 then mp + 3 else mp - 9);
          y = yoe + era * 400 + (if m \<le> 2 then 1 else 0)
      in (y, m, d))"

definition read_fraction :: "string \<Rightarrow> nat option" where
  "read_fraction s =
     (if s = [] then Some 0
      else if length s = 7 \<and> hd s = CHR ''.'' then read_nat (tl s)
      else None)"

text \<open>The offset \<open>+HH:MM\<close> or \<open>-HH:MM\<close> in microseconds; an empty string is no offset.\<close>

definition read_zone :: "string \<Rightarrow> int option option" where
  "read_zone z =
     (if z = [] then Some None
      else if length z = 6 \<and> (hd z = CHR ''+'' \<or> hd z = CHR ''-'') \<and> z ! 3 = CHR '':''
      then (case (read_nat (take 2 (drop 1 z)), read_nat (drop 4 z)) of
              (Some hh, Some mi) \<Rightarrow>
                (if hh < 24 \<and> mi < 60
                 then Some (Some ((if hd z = CHR ''-'' then - 1 else 1)
                                    * (int hh * 3600 + int mi * 60) * 1000000))
                 else None)
            | _ \<Rightarrow> None)
      else None)"

definition read_iso :: "string \<Rightarrow> pydatetime option" where
  "read_iso s =
     (if 19 \<le> length s \<and> s ! 4 = CHR ''-'' \<and> s ! 7 = CHR ''-'' \<and> s ! 10 = CHR ''T''
         \<and> s ! 13 = CHR '':'' \<and> s ! 16 = CHR '':''
      then (let r = drop 19 s;
                fr = (if r \<noteq> [] \<and> hd r = CHR ''.'' then take 7 r else []);
                zn = (if r \<noteq> [] \<and> hd r = CHR ''.'' then drop 7 r else r)
            in case (read_nat (take 4 s), read_nat (take 2 (drop 5 s)), read_nat (take 2 (drop 8 s)),
                     read_nat (take 2 (drop 11 s)), read_nat (take 2 (drop 14 s)),
                     read_nat (take 2 (drop 17 s)), read_fraction fr, read_zone zn) of
                 (Some y, Some m, Some d, Some hh, Some mi, Some ss, Some us, Some off) \<Rightarrow>
                   (if 1 \<le> y \<and> y \<le> 9999 \<and> 1 \<le> m \<and> m \<le> 12 \<and> 1 \<le> d
                       \<and> int d \<le> days_in_month (int y) (int m) \<and> hh < 24 \<and> mi < 60 \<and> ss < 60
                    then Some \<lparr>wall_us =
                                  ((days_from_civil (int y) (int m) (int d) * 24 + int hh) * 60
                                    + int mi) * 60000000 + int ss * 1000000 + int us,
                                utcoffset = off\<rparr>
                    else None)
               | _ \<Rightarrow> None)
      else None)"

definition pad_nat :: "nat \<Rightarrow> nat \<Rightarrow> string" where
  "pad_nat w n = replicate (w - length (dec_nat n)) CHR ''0'' @ dec_nat n"

definition write_offset :: "int \<Rightarrow> string" where
  "write_offset off =
     (if off < 0 then ''-'' else ''+'')
       @ pad_nat 2 (nat (\<bar>off\<bar> div 3600000000)) @ '':''
       @ pad_nat 2 (nat ((\<bar>off\<bar> div 60000000) mod 60))"

definition write_iso :: "pydatetime \<Rightarrow> string" where
  "write_iso dt =
     (let t = wall_us dt;
          us = t mod 1000000;
          secs = t div 1000000
      in case civil_from_days (secs div 86400) of
           (y, m, d) \<Rightarrow>
             pad_nat 4 (nat y) @ ''-'' @ pad_nat 2 (nat m) @ ''-'' @ pad_nat 2 (nat d) @ ''T''
               @ pad_nat 2 (nat ((secs div 3600) mod 24)) @ '':''
               @ pad_nat 2 (nat ((secs div 60) mod 60)) @ '':''
               @ pad_nat 2 (nat (secs mod 60))
               @ (if us = 0 then [] else ''.'' @ pad_nat 6 (nat us))
               @ (case utcoffset dt of None \<Rightarrow> [] | Some off \<Rightarrow> write_offset off))"

fun join_with :: "string \<Rightarrow> string list \<Rightarrow> string" where
  "join_with sep [] = []"
| "join_with sep [x] = x"
| "join_with sep (x # y # ys) = x @ sep @ join_with sep (y # ys)"

definition escape_char :: "char \<Rightarrow> string" where
  "escape_char c =
     (if c = CHR 0x22 then [CHR 0x5C, CHR 0x22]
      else if c = CHR 0x5C then [CHR 0x5C, CHR 0x5C]
      else [c])"

definition quote_json :: "string \<Rightarrow> string" where
  "quote_json s = [CHR 0x22] @ concat (map escape_char s) @ [CHR 0x22]"

definition write_float :: "pyfloat \<Rightarrow> string" where
  "write_float f =
     (case f of
        Finite x \<Rightarrow> fmt_d \<lfloor>x\<rfloor> @ ''.0''
      | PosInf \<Rightarrow> ''Infinity''
      | NegInf \<Rightarrow> ''-Infinity''
      | NaN \<Rightarrow> ''NaN'')"

primrec write_json :: "json \<Rightarrow> string" where
  "write_json JNull = ''null''"
| "write_json (JBool b) = (if b then ''true'' else ''false'')"
| "write_json (JInt n) = fmt_d n"
| "write_json (JFloat f) = write_float f"
| "write_json (JStr s) = quote_json s"
| "write_json (JList xs) = ''['' @ join_with '', '' (map write_json xs) @ '']''"
| "write_json (JObj kvs) =
     ''{'' @ join_with '', '' (map (\<lambda>kv. quote_json (fst kv) @ '': '' @ snd kv)
                                (map (map_prod id write_json) kvs)) @ ''}''"

definition write_repr :: "json \<Rightarrow> string" where
  "write_repr v =
     (case v of
        JNull \<Rightarrow> ''None''
      | JBool b \<Rightarrow> (if b then ''True'' else ''False'')
      | JInt n \<Rightarrow> fmt_d n
      | JFloat (Finite x) \<Rightarrow> fmt_d \<lfloor>x\<rfloor> @ ''.0''
      | JFloat PosInf \<Rightarrow> ''inf''
      | JFloat NegInf \<Rightarrow> ''-inf''
      | JFloat NaN \<Rightarrow> ''nan''
      | _ \<Rightarrow> write_json v)"

definition from_seconds :: "json \<Rightarrow> py_error + pydatetime" where
  "from_seconds x =
     (case x of
        JInt n \<Rightarrow>
          (if MIN_US \<le> n * 1000000 \<and> n * 1000000 \<le> MAX_US
           then Inr \<lparr>wall_us = n * 1000000, utcoffset = None\<rparr> else Inl OverflowError)
      | JBool b \<Rightarrow> Inr \<lparr>wall_us = (if b then 1000000 else 0), utcoffset = None\<rparr>
      | JFloat (Finite r) \<Rightarrow>
          (if real_of_int MIN_US \<le> r * 1000000 \<and> r * 1000000 \<le> real_of_int MAX_US
           then Inr \<lparr>wall_us = \<lfloor>r * 1000000 + 1 / 2\<rfloor>, utcoffset = None\<rparr>
           else Inl OverflowError)
      | JFloat NaN \<Rightarrow> Inl ValueError
      | JFloat _ \<Rightarrow> Inl OverflowError
      | _ \<Rightarrow> Inl TypeError)"

definition sample_lib :: pylib where
  "sample_lib =
     \<lparr>str_to_int = read_int,
      str_to_float = (\<lambda>s. map_option (\<lambda>n. Finite (real_of_int n)) (read_int s)),
      int_to_float = (\<lambda>n. if \<bar>n\<bar> < 2 ^ 1024 then Some (Finite (real_of_int n)) else None),
      repr_json = write_repr,
      fromisoformat = read_iso,
      isoformat = write_iso,
      utcfromtimestamp = from_seconds,
      json_dumps = write_json\<rparr>"

section \<open>Sample inputs and the opacity of the specification\<close>

text \<open>
  The event of the example in the header of \<open>infobar_sv.py\<close>, on channel 3: start
  2025-08-16T20:00:00, end and next start 2025-08-16T22:18:00.
\<close>

definition ev_movie :: InfobarEvent where
  "ev_movie =
     \<lparr>channel_number = 3, channel_name = ''TV3'', title = ''Movie'',
      start = 1755374400000000, end_utc = 1755382680000000, ts = Finite 1755374400,
      next_title = Some ''News'', next_start = Some 1755382680000000\<rparr>"

text \<open>The payload of that event, as the producer writes it.\<close>

definition payload_movie :: "(string \<times> json) list" where
  "payload_movie =
     [(''ts'', JFloat (Finite 1755374400)), (''channel_number'', JInt 3),
      (''channel_name'', JStr ''TV3''), (''title'', JStr ''Movie''),
      (''start'', JStr ''2025-08-16T20:00:00''), (''end'', JStr ''2025-08-16T22:18:00''),
      (''next_title'', JStr ''News''), (''next_start'', JStr ''2025-08-16T22:18:00'')]"

text \<open>
  An instant in whole seconds, rounded toward zero, computed exactly: what "rounded to
  seconds" means in the specification; \<open>trunc_seconds\<close> is compared with it below.
\<close>

definition spec_whole_second :: "int \<Rightarrow> int" where
  "spec_whole_second us = (if 0 \<le> us then us div 1000000 else - ((- us) div 1000000))"

text \<open>
  The opacity the specification gives for the elapsed time \<open>t\<close> since the event was accepted
  (section 4.4), written from its words; the frame loop is compared with it below.
\<close>

definition spec_opacity :: "real \<Rightarrow> real" where
  "spec_opacity t =
     (if t < FADE_IN then t / FADE_IN
      else if t < FADE_IN + VIS_SECONDS then 1
      else max 0 (1 - (t - FADE_IN - VIS_SECONDS) / FADE_OUT))"

subsection \<open>Properties of SeriesIndex\<close>

lemma get_next_in_range:
  assumes "episodes s \<noteq> []" and "0 \<le> index s" and "index s < int (length (episodes s))"
  shows "get_next s =
           Inr (Some (episodes s ! nat (index s)),
                s\<lparr>index := (index s + 1) mod int (length (episodes s))\<rparr>)"
  using assms by (simp add: get_next_def py_getitem_def)

lemma get_next_n_cycle:
  assumes "episodes s \<noteq> []" and "0 \<le> index s" and "index s < int (length (episodes s))"
  shows "get_next_n k s =
           Inr (map (\<lambda>i. Some (episodes s ! ((nat (index s) + i) mod length (episodes s)))) [0..<k],
                s\<lparr>index := (index s + int k) mod int (length (episodes s))\<rparr>)"
  using assms
proof (induction k arbitrary: s)
  case 0
  then show ?case by simp
next
  case (Suc k)
  let ?n = "length (episodes s)"
  let ?s1 = "s\<lparr>index := (index s + 1) mod int ?n\<rparr>"
  have npos: "0 < ?n" using Suc.prems(1) by simp
  have step: "get_next s = Inr (Some (episodes s ! nat (index s)), ?s1)"
    using Suc.prems by (rule get_next_in_range)
  have e1: "episodes ?s1 = episodes s" by simp
  have i1: "index ?s1 = (index s + 1) mod int ?n" by simp
  have r1: "0 \<le> index ?s1" "index ?s1 < int (length (episodes ?s1))"
    using npos by simp_all
  have ne1: "episodes ?s1 \<noteq> []" using Suc.prems(1) by simp
  have ih: "get_next_n k ?s1 =
      Inr (map (\<lambda>i. Some (episodes ?s1 ! ((nat (index ?s1) + i) mod length (episodes ?s1)))) [0..<k],
           ?s1\<lparr>index := (index ?s1 + int k) mod int (length (episodes ?s1))\<rparr>)"
    using Suc.IH [OF ne1 r1] .
  have nat1: "nat (index ?s1) = (nat (index s) + 1) mod ?n"
  proof -
    have "index s + 1 = int (nat (index s) + 1)" using Suc.prems(2) by simp
    then have "(index s + 1) mod int ?n = int ((nat (index s) + 1) mod ?n)"
      by (simp only: zmod_int)
    then show ?thesis by simp
  qed
  have shift: "\<And>i. (nat (index ?s1) + i) mod ?n = (nat (index s) + Suc i) mod ?n"
  proof -
    fix i
    have "(nat (index ?s1) + i) mod ?n = ((nat (index s) + 1) mod ?n + i) mod ?n"
      using nat1 by simp
    also have "\<dots> = (nat (index s) + 1 + i) mod ?n" by (rule mod_add_left_eq)
    finally show "(nat (index ?s1) + i) mod ?n = (nat (index s) + Suc i) mod ?n" by simp
  qed
  have idx: "(index ?s1 + int k) mod int ?n = (index s + int (Suc k)) mod int ?n"
  proof -
    have "((index s + 1) mod int ?n + int k) mod int ?n = (index s + 1 + int k) mod int ?n"
      by (rule mod_add_left_eq)
    then show ?thesis by (simp add: algebra_simps)
  qed
  have upt: "[0..<Suc k] = 0 # map Suc [0..<k]"
    by (simp add: upt_conv_Cons map_Suc_upt del: upt_Suc)
  have first: "nat (index s) mod ?n = nat (index s)"
    using Suc.prems(2,3) by simp
  show ?case
    apply (simp only: get_next_n.simps step sum.case prod.case ih e1 upt list.map map_map o_def)
    apply (simp only: shift idx)
    apply (simp add: first)
    done
qed

text \<open>
  C10. \<open>get_next\<close> returns None exactly when the episode list is empty. After \<open>populate\<close>
  with a non-empty list the episodes are the sorted input; \<open>k\<close> successive calls return them
  cyclically in that order (call number \<open>i\<close> returns entry \<open>i mod n\<close>, so after
  \<open>get_series_length\<close> calls the first episode comes again), no call raises, and the
  position stays in \<open>[0, n)\<close>.
\<close>

theorem get_next_cyclic:
  "((\<exists>s'. get_next s0 = Inr (None, s')) \<longleftrightarrow> episodes s0 = [])
   \<and> (file_list \<noteq> [] \<longrightarrow>
        sorted (episodes (populate s file_list))
        \<and> mset (episodes (populate s file_list)) = mset file_list
        \<and> get_series_length (populate s file_list) = int (length file_list)
        \<and> (\<exists>s'. get_next_n k (populate s file_list) =
                  Inr (map (\<lambda>i. Some (episodes (populate s file_list) ! (i mod length file_list)))
                         [0..<k], s')
                \<and> episodes s' = episodes (populate s file_list)
                \<and> 0 \<le> index s' \<and> index s' < get_series_length s'
                \<and> index s' = int (k mod length file_list)))"
proof (intro conjI impI)
  show "(\<exists>s'. get_next s0 = Inr (None, s')) \<longleftrightarrow> episodes s0 = []"
    by (auto simp: get_next_def split: sum.splits)
next
  assume ne: "file_list \<noteq> []"
  let ?p = "populate s file_list"
  have ep: "episodes ?p = sort file_list" and ix: "index ?p = 0"
    by (simp_all add: populate_def sorted_paths_def)
  show "sorted (episodes ?p)" by (simp add: ep)
  show "mset (episodes ?p) = mset file_list" by (simp add: ep)
  show "get_series_length ?p = int (length file_list)"
    by (simp add: get_series_length_def ep)
  have len: "length (episodes ?p) = length file_list" by (simp add: ep)
  have npos: "0 < length file_list" using ne by simp
  have pre: "episodes ?p \<noteq> []" "0 \<le> index ?p" "index ?p < int (length (episodes ?p))"
    using npos len by (auto simp: ix)
  let ?s' = "?p\<lparr>index := (index ?p + int k) mod int (length (episodes ?p))\<rparr>"
  have run: "get_next_n k ?p =
      Inr (map (\<lambda>i. Some (episodes ?p ! (i mod length file_list))) [0..<k], ?s')"
    using get_next_n_cycle [OF pre, of k] by (simp add: ix len)
  have i': "index ?s' = int (k mod length file_list)"
    by (simp add: ix len zmod_int)
  have "episodes ?s' = episodes ?p" by simp
  moreover have "0 \<le> index ?s'" using i' by simp
  moreover have "index ?s' < get_series_length ?s'"
    using npos by (simp add: get_series_length_def ix len)
  ultimately show "\<exists>s'. get_next_n k ?p =
        Inr (map (\<lambda>i. Some (episodes ?p ! (i mod length file_list))) [0..<k], s')
      \<and> episodes s' = episodes ?p
      \<and> 0 \<le> index s' \<and> index s' < get_series_length s'
      \<and> index s' = int (k mod length file_list)"
    using run i' by blast
qed

theorem get_next_cyclic_witness:
  "[''b.mp4'', ''a.mp4''] \<noteq> []
   \<and> (\<exists>s'. get_next_n 3 (populate \<lparr>series_name = ''show'', episodes = [], index = 0\<rparr> [''b.mp4'', ''a.mp4''])
            = Inr ([Some ''a.mp4'', Some ''b.mp4'', Some ''a.mp4''], s')
          \<and> episodes s' = [''a.mp4'', ''b.mp4''] \<and> index s' = 1)"
proof -
  let ?S = "\<lparr>series_name = ''show'', episodes = [], index = 0\<rparr>"
  let ?fl = "[''b.mp4'', ''a.mp4'']"
  have ne: "?fl \<noteq> []" by simp
  have ep: "episodes (populate ?S ?fl) = [''a.mp4'', ''b.mp4'']"
    by (simp add: populate_def sorted_paths_def less_eq_char_def less_char_def)
  from get_next_cyclic [of ?S ?fl ?S 3] ne obtain s' where
    run: "get_next_n 3 (populate ?S ?fl) =
            Inr (map (\<lambda>i. Some (episodes (populate ?S ?fl) ! (i mod length ?fl))) [0..<3], s')"
    and e': "episodes s' = episodes (populate ?S ?fl)"
    and i': "index s' = int (3 mod length ?fl)"
    by blast
  have m: "map (\<lambda>i. Some (episodes (populate ?S ?fl) ! (i mod length ?fl))) [0..<3]
           = [Some ''a.mp4'', Some ''b.mp4'', Some ''a.mp4'']"
    by (simp add: ep upt_conv_Cons)
  have run': "get_next_n 3 (populate ?S ?fl) =
      Inr ([Some ''a.mp4'', Some ''b.mp4'', Some ''a.mp4''], s')"
    using run by (simp only: m)
  have l2: "length ?fl = 2" by simp
  have i'': "index s' = 1" using i' unfolding l2 by simp
  show ?thesis using run' e' i'' ep by simp
qed

subsection \<open>Whole seconds of a float\<close>

lemma rhe_lower:
  assumes "of_int K \<le> y"
  shows "K \<le> round_half_even y"
proof -
  have "K \<le> \<lfloor>y\<rfloor>" using assms by (simp add: le_floor_iff)
  then show ?thesis by (simp add: round_half_even_def)
qed

lemma rhe_upper:
  assumes "y < of_int K - 1 / 2"
  shows "round_half_even y \<le> K - 1"
proof -
  have f: "\<lfloor>y\<rfloor> \<le> K - 1"
  proof -
    have "y < of_int K" using assms by simp
    then have "\<lfloor>y\<rfloor> < K" by (simp add: floor_less_iff)
    then show ?thesis by simp
  qed
  show ?thesis
  proof (cases "y - of_int \<lfloor>y\<rfloor> < 1 / 2")
    case True
    then show ?thesis using f by (simp add: round_half_even_def)
  next
    case False
    then have "of_int \<lfloor>y\<rfloor> + 1 / 2 \<le> y" by simp
    then have "of_int \<lfloor>y\<rfloor> < (of_int K :: real) - 1" using assms by linarith
    then have "of_int \<lfloor>y\<rfloor> < (of_int (K - 1) :: real)" by simp
    then have "\<lfloor>y\<rfloor> < K - 1" by (simp only: of_int_less_iff)
    then show ?thesis by (simp add: round_half_even_def)
  qed
qed

lemma rhe_nonneg: "0 \<le> y \<Longrightarrow> 0 \<le> round_half_even y"
  using rhe_lower [of 0 y] by simp

lemma pow2_pos: "0 < pow2 k"
  by (simp add: pow2_def)

lemma float_exponent_le:
  assumes "0 < x" and "x < 2 ^ 34"
  shows "float_exponent x \<le> 33"
proof (cases "1 \<le> x")
  case True
  have "\<lfloor>x\<rfloor> < 2 ^ 34" using assms(2) by (simp add: floor_less_iff)
  then have "bitlen \<lfloor>x\<rfloor> \<le> 34" by (simp add: bitlen_le_iff_power)
  then show ?thesis using True by (simp add: float_exponent_def)
next
  case False
  have "0 \<le> bitlen (\<lceil>1 / x\<rceil> - 1)" by (rule bitlen_nonneg)
  then show ?thesis using False by (simp add: float_exponent_def)
qed

lemma round_double_pos:
  assumes "0 < us" and "us < 2 ^ 34 * 1000000"
  shows "of_int (us div 1000000) \<le> round_double (of_int us / 1000000)"
    and "round_double (of_int us / 1000000) < of_int (us div 1000000) + 1"
proof -
  let ?x = "real_of_int us / 1000000"
  let ?N = "us div 1000000"
  have xpos: "0 < ?x" using assms(1) by simp
  have xlt: "?x < 2 ^ 34"
  proof -
    have "real_of_int us < real_of_int (2 ^ 34 * 1000000)" using assms(2) by (simp only: of_int_less_iff)
    then show ?thesis by simp
  qed
  define e where "e = float_exponent ?x"
  have e33: "e \<le> 33" unfolding e_def using xpos xlt by (rule float_exponent_le)
  define d where "d = nat (52 - e)"
  define P where "P = (2::real) ^ d"
  have d19: "19 \<le> d" using e33 by (simp add: d_def)
  have "(2::real) ^ 19 \<le> 2 ^ d" using d19 by (intro power_increasing) simp_all
  then have P19: "524288 \<le> P" by (simp add: P_def)
  have Ppos: "0 < P" by (simp add: P_def)
  have pw: "pow2 (e - 52) = 1 / P"
    using e33 by (simp add: pow2_def P_def d_def)
  have rd: "round_double ?x = of_int (round_half_even (?x * P)) / P"
    using xpos by (simp add: round_double_def e_def [symmetric] pw)
  have us: "us = ?N * 1000000 + us mod 1000000" by simp
  have m: "0 \<le> us mod 1000000" "us mod 1000000 \<le> 999999"
    using pos_mod_bound [of 1000000 us] by simp_all
  have lo: "of_int ?N \<le> ?x"
  proof -
    have "?N * 1000000 \<le> us" using us m(1) by linarith
    then have "real_of_int (?N * 1000000) \<le> real_of_int us" by (simp only: of_int_le_iff)
    then show ?thesis by simp
  qed
  have hi: "?x \<le> of_int ?N + 1 - 1 / 1000000"
  proof -
    have "us \<le> ?N * 1000000 + 999999" using us m(2) by linarith
    then have "real_of_int us \<le> real_of_int (?N * 1000000 + 999999)" by (simp only: of_int_le_iff)
    then show ?thesis by simp
  qed
  have NP: "real_of_int (?N * 2 ^ d) = of_int ?N * P" by (simp add: P_def)
  have NP1: "real_of_int ((?N + 1) * 2 ^ d) = (of_int ?N + 1) * P" by (simp add: P_def)
  have "of_int ?N * P \<le> ?x * P" using lo Ppos by (simp add: mult_right_mono)
  then have "real_of_int (?N * 2 ^ d) \<le> ?x * P" by (simp only: NP)
  then have r1: "?N * 2 ^ d \<le> round_half_even (?x * P)" by (rule rhe_lower)
  have "?x * P \<le> (of_int ?N + 1 - 1 / 1000000) * P" using hi Ppos by (simp add: mult_right_mono)
  also have "\<dots> = (of_int ?N + 1) * P - P / 1000000" by (simp add: algebra_simps)
  also have "\<dots> < (of_int ?N + 1) * P - 1 / 2" using P19 by simp
  finally have "?x * P < real_of_int ((?N + 1) * 2 ^ d) - 1 / 2" by (simp only: NP1)
  then have r2: "round_half_even (?x * P) \<le> (?N + 1) * 2 ^ d - 1" by (rule rhe_upper)
  have "real_of_int (?N * 2 ^ d) \<le> real_of_int (round_half_even (?x * P))"
    using r1 by (simp only: of_int_le_iff)
  then have "of_int ?N * P \<le> real_of_int (round_half_even (?x * P))" by (simp only: NP)
  then show "of_int ?N \<le> round_double ?x"
    unfolding rd using Ppos by (simp add: pos_le_divide_eq)
  have "real_of_int (round_half_even (?x * P)) \<le> real_of_int ((?N + 1) * 2 ^ d - 1)"
    using r2 by (simp only: of_int_le_iff)
  moreover have "real_of_int ((?N + 1) * 2 ^ d - 1) = (of_int ?N + 1) * P - 1"
    by (simp add: P_def)
  ultimately have "real_of_int (round_half_even (?x * P)) \<le> (of_int ?N + 1) * P - 1"
    by (simp only:)
  then have "real_of_int (round_half_even (?x * P)) < (of_int ?N + 1) * P" by simp
  then show "round_double ?x < of_int ?N + 1"
    unfolding rd using Ppos by (simp add: pos_divide_less_eq)
qed

lemma round_double_neg: "round_double (- x) = - round_double x"
  by (simp add: round_double_def sgn_minus)

lemma round_double_nonneg: "0 \<le> x \<Longrightarrow> 0 \<le> round_double x"
  by (simp add: round_double_def sgn_real_def rhe_nonneg pow2_pos less_imp_le)

lemma trunc_seconds_exact:
  assumes "\<bar>us\<bar> < 2 ^ 34 * 1000000"
  shows "trunc_seconds us = spec_whole_second us"
proof -
  have pos: "trunc_seconds u = u div 1000000" "py_trunc (- round_double (of_int u / 1000000)) = - (u div 1000000)"
    if "0 < u" "u < 2 ^ 34 * 1000000" for u
  proof -
    let ?r = "round_double (of_int u / 1000000)"
    note b = round_double_pos [OF that]
    have fl: "\<lfloor>?r\<rfloor> = u div 1000000" using b by (intro floor_unique) simp_all
    have "0 \<le> u div 1000000" using that(1) by (simp add: pos_imp_zdiv_nonneg_iff)
    then have nn: "0 \<le> ?r" using b(1) by linarith
    show "trunc_seconds u = u div 1000000"
      using nn fl by (simp add: trunc_seconds_def py_trunc_def)
    show "py_trunc (- ?r) = - (u div 1000000)"
    proof (cases "?r = 0")
      case True
      then show ?thesis using fl by (simp add: py_trunc_def)
    next
      case False
      then have "\<not> 0 \<le> - ?r" using nn by simp
      then show ?thesis using fl by (simp add: py_trunc_def ceiling_minus)
    qed
  qed
  consider "us = 0" | "0 < us" | "us < 0" by linarith
  then show ?thesis
  proof cases
    case 1
    then show ?thesis
      by (simp add: trunc_seconds_def py_trunc_def round_double_def spec_whole_second_def)
  next
    case 2
    then show ?thesis using assms pos(1) [of us] by (simp add: spec_whole_second_def)
  next
    case 3
    then have u: "0 < - us" "- us < 2 ^ 34 * 1000000" using assms by simp_all
    have "real_of_int us / 1000000 = - (real_of_int (- us) / 1000000)" by simp
    then have "trunc_seconds us = py_trunc (- round_double (of_int (- us) / 1000000))"
      unfolding trunc_seconds_def by (simp only: round_double_neg)
    then show ?thesis using pos(2) [OF u] 3 by (simp add: spec_whole_second_def)
  qed
qed

lemma trunc_seconds_nonpos: "us \<le> 0 \<Longrightarrow> trunc_seconds us \<le> 0"
proof -
  assume "us \<le> 0"
  then have "0 \<le> round_double (- (real_of_int us / 1000000))"
    by (intro round_double_nonneg) simp
  then have "round_double (real_of_int us / 1000000) \<le> 0"
    by (simp add: round_double_neg)
  then show ?thesis
    by (auto simp: trunc_seconds_def py_trunc_def ceiling_le_iff floor_le_iff)
qed

subsection \<open>Remaining time\<close>

lemma digit_char_0: "digit_char 0 = CHR ''0''"
  by (simp add: digit_char_def)

lemma dec_nat_small: "n < 10 \<Longrightarrow> dec_nat n = [digit_char n]"
  by (subst dec_nat.simps) simp

lemma dec_nat_two:
  "10 \<le> n \<Longrightarrow> n < 100 \<Longrightarrow> dec_nat n = [digit_char (n div 10), digit_char (n mod 10)]"
  by (subst dec_nat.simps) (simp add: dec_nat_small)

lemma fmt_02d_0: "fmt_02d 0 = ''00''"
  by (simp add: fmt_02d_def dec_nat_small digit_char_0)

lemma fmt_02d_two:
  assumes "0 \<le> n" and "n < 100"
  shows "fmt_02d n = [digit_char (nat n div 10), digit_char (nat n mod 10)]"
proof (cases "n < 10")
  case True
  then show ?thesis using assms by (simp add: fmt_02d_def dec_nat_small digit_char_0)
next
  case False
  then have "10 \<le> nat n" "nat n < 100" using assms by simp_all
  then show ?thesis using False assms by (simp add: fmt_02d_def dec_nat_two)
qed

lemma minutes_of_seconds: "((a::int) mod 3600) div 60 = (a div 60) mod 60"
proof -
  have "a mod (60 * 60) = 60 * (a div 60 mod 60) + a mod 60"
    by (rule zmod_zmult2_eq) simp
  then have "(a mod 3600) div 60 = (60 * (a div 60 mod 60) + a mod 60) div 60" by simp
  also have "\<dots> = a div 60 mod 60" by simp
  finally show ?thesis .
qed

lemma fmt_remaining_past:
  assumes "e \<le> n"
  shows "fmt_remaining n e = ''Remaining time 00:00 Hours''"
proof -
  have "trunc_seconds (e - n) \<le> 0" using assms by (simp add: trunc_seconds_nonpos)
  then have "(if trunc_seconds (e - n) < 0 then 0 else trunc_seconds (e - n)) = 0" by simp
  then show ?thesis by (simp add: fmt_remaining_def Let_def fmt_02d_0)
qed

lemma fmt_remaining_future:
  assumes "n \<le> e" and "e - n < 2 ^ 34 * 1000000"
  shows "fmt_remaining n e =
           ''Remaining time '' @ fmt_02d ((e - n) div 3600000000) @ '':''
             @ fmt_02d (((e - n) div 60000000) mod 60) @ '' Hours''"
proof -
  let ?s = "(e - n) div 1000000"
  have nn: "0 \<le> e - n" using assms by simp
  have "\<bar>e - n\<bar> < 2 ^ 34 * 1000000" using nn assms(2) by simp
  then have t: "trunc_seconds (e - n) = ?s"
    using nn by (simp add: trunc_seconds_exact spec_whole_second_def)
  have s0: "\<not> ?s < 0" using nn by (simp add: pos_imp_zdiv_nonneg_iff)
  have h: "?s div 3600 = (e - n) div 3600000000"
    using zdiv_zmult2_eq [of 3600 "e - n" 1000000] by simp
  have m0: "?s div 60 = (e - n) div 60000000"
    using zdiv_zmult2_eq [of 60 "e - n" 1000000] by simp
  have m: "(?s mod 3600) div 60 = ((e - n) div 60000000) mod 60"
    by (simp only: minutes_of_seconds m0)
  show ?thesis
    unfolding fmt_remaining_def Let_def t using s0 by (simp only: if_False h m)
qed

lemma fmt_02d_2: "fmt_02d 2 = ''02''"
  by (simp add: fmt_02d_def dec_nat_small digit_char_def)

lemma fmt_02d_5: "fmt_02d 5 = ''05''"
  by (simp add: fmt_02d_def dec_nat_small digit_char_def)

text \<open>
  C6, as stated: two hours and five minutes ahead the formatter returns the five characters
  02:05. It does not: the digits stand inside a fixed label.
\<close>

theorem fmt_remaining_not_bare:
  "fmt_remaining 0 7500000000 = ''Remaining time 02:05 Hours''
   \<and> fmt_remaining 0 7500000000 \<noteq> ''02:05''"
proof -
  have "fmt_remaining 0 7500000000 = ''Remaining time 02:05 Hours''"
    using fmt_remaining_future [of 0 7500000000] by (simp add: fmt_02d_2 fmt_02d_5)
  then show ?thesis by simp
qed

text \<open>
  C6, amended. The formatter returns \<open>Remaining time HH:MM Hours\<close>: two hours and five
  minutes ahead of any \<open>now\<close> the field reads 02:05; with \<open>end\<close> at or before \<open>now\<close> it
  reads 00:00; for a difference below \<open>2^34\<close> seconds, where the float of
  \<open>total_seconds()\<close> has the whole seconds of the difference, the hours are the whole hours
  of the difference and the minutes the whole minutes within the hour, each written by
  \<open>02d\<close>, which for a number below 100 is exactly two digits.
\<close>

theorem fmt_remaining_hh_mm:
  "fmt_remaining now (now + 7500000000) = ''Remaining time 02:05 Hours''
   \<and> (e \<le> now \<longrightarrow> fmt_remaining now e = ''Remaining time 00:00 Hours'')
   \<and> (now \<le> e \<and> e - now < 2 ^ 34 * 1000000 \<longrightarrow>
        fmt_remaining now e =
          ''Remaining time '' @ fmt_02d ((e - now) div 3600000000) @ '':''
            @ fmt_02d (((e - now) div 60000000) mod 60) @ '' Hours''
        \<and> 0 \<le> (e - now) div 3600000000
        \<and> 0 \<le> ((e - now) div 60000000) mod 60 \<and> ((e - now) div 60000000) mod 60 < 60)
   \<and> (0 \<le> k \<and> k < 100 \<longrightarrow>
        fmt_02d k = [digit_char (nat k div 10), digit_char (nat k mod 10)])"
proof (intro conjI impI)
  show "fmt_remaining now (now + 7500000000) = ''Remaining time 02:05 Hours''"
    using fmt_remaining_future [of now "now + 7500000000"] by (simp add: fmt_02d_2 fmt_02d_5)
  show "fmt_remaining now e = ''Remaining time 00:00 Hours''" if "e \<le> now"
    using that by (rule fmt_remaining_past)
  show "fmt_remaining now e =
          ''Remaining time '' @ fmt_02d ((e - now) div 3600000000) @ '':''
            @ fmt_02d (((e - now) div 60000000) mod 60) @ '' Hours''"
    if "now \<le> e \<and> e - now < 2 ^ 34 * 1000000"
    using that by (intro fmt_remaining_future) simp_all
  show "0 \<le> (e - now) div 3600000000" if "now \<le> e \<and> e - now < 2 ^ 34 * 1000000"
    using that by (simp add: pos_imp_zdiv_nonneg_iff)
  show "0 \<le> ((e - now) div 60000000) mod 60" by simp
  show "((e - now) div 60000000) mod 60 < 60" by simp
  show "fmt_02d k = [digit_char (nat k div 10), digit_char (nat k mod 10)]"
    if "0 \<le> k \<and> k < 100"
    using that by (simp add: fmt_02d_two)
qed

theorem fmt_remaining_hh_mm_witness:
  "fmt_remaining 1000000 0 = ''Remaining time 00:00 Hours''
   \<and> fmt_remaining 0 3599999999 = ''Remaining time 00:59 Hours''
   \<and> fmt_02d 59 = ''59''"
proof -
  have a: "fmt_remaining 1000000 0 = ''Remaining time 00:00 Hours''"
    using fmt_remaining_hh_mm [of 1000000 0 0] by simp
  have k: "fmt_02d 59 = ''59''"
    using fmt_remaining_hh_mm [of 0 0 59] by (simp add: digit_char_def)
  have b: "fmt_remaining 0 3599999999 = ''Remaining time 00:59 Hours''"
    using fmt_remaining_hh_mm [of 0 3599999999 0] by (simp add: k fmt_02d_0)
  show ?thesis using a b k by simp
qed

text \<open>
  From \<open>2^34\<close> seconds on the float of \<open>total_seconds()\<close> can be the next whole second:
  for an \<open>end\<close> 19880899259.999999 seconds after \<open>now\<close> the quotient rounds to
  19880899260.0, and the field shows one minute more than the whole minutes of the
  difference.
\<close>

theorem fmt_remaining_far:
  "trunc_seconds 19880899259999999 = 19880899260
   \<and> spec_whole_second 19880899259999999 = 19880899259
   \<and> fmt_remaining 0 19880899259999999 = ''Remaining time 5522472:01 Hours''"
proof -
  have t: "trunc_seconds 19880899259999999 = 19880899260"
    by code_simp
  have h: "fmt_02d 5522472 = ''5522472''" and m: "fmt_02d 1 = ''01''"
    by (simp_all add: fmt_02d_def dec_nat.simps digit_char_def)
  have "fmt_remaining 0 19880899259999999 = ''Remaining time 5522472:01 Hours''"
    by (simp add: fmt_remaining_def Let_def t h m)
  then show ?thesis by (simp add: t spec_whole_second_def)
qed

subsection \<open>Cache key\<close>

lemma ensure_texture_key: "current_img_key (ensure_texture r n ev) = Some (cache_key ev)"
  by (simp add: ensure_texture_def)

lemma ensure_texture_same_key:
  "current_img_key r = Some (cache_key ev) \<Longrightarrow> ensure_texture r n ev = r"
  by (simp add: ensure_texture_def)

lemma trunc_seconds_far:
  "trunc_seconds 19880899200500000 = 19880899200"
  "trunc_seconds 19880899200999999 = 19880899201"
  by code_simp+

lemma trunc_seconds_near:
  "trunc_seconds 999999 = 0" "trunc_seconds 1000000 = 1"
  "trunc_seconds 1755382680000000 = 1755382680"
  by (simp_all add: trunc_seconds_exact spec_whole_second_def)

text \<open>
  C5, as stated: events whose \<open>end\<close> differs by less than a second after rounding to
  whole seconds have the same key. The two ends 2600-01-01T00:00:00.500000 and
  2600-01-01T00:00:00.999999 lie in one whole second, but the float of the second
  timestamp is the next whole second: the keys differ and the image is drawn twice. Before
  \<open>2^34\<close> seconds two ends one microsecond apart, on either side of a whole second, have
  different keys as well.
\<close>

theorem cache_key_differs_within_second:
  "spec_whole_second 19880899200500000 = spec_whole_second 19880899200999999
   \<and> cache_key (ev_movie\<lparr>end_utc := 19880899200500000\<rparr>)
       \<noteq> cache_key (ev_movie\<lparr>end_utc := 19880899200999999\<rparr>)
   \<and> n_draw_image
        (ensure_texture
           (ensure_texture (renderer init_app) 5 (ev_movie\<lparr>end_utc := 19880899200500000\<rparr>))
           6 (ev_movie\<lparr>end_utc := 19880899200999999\<rparr>)) = 2
   \<and> cache_key (ev_movie\<lparr>end_utc := 999999\<rparr>) \<noteq> cache_key (ev_movie\<lparr>end_utc := 1000000\<rparr>)"
  by (simp add: spec_whole_second_def cache_key_def ensure_texture_def init_app_def
      trunc_seconds_far trunc_seconds_near)

text \<open>
  C5, amended. The cache key is the tuple of channel number, channel name, title,
  \<open>int(end.timestamp())\<close>, next title and \<open>int(next_start.timestamp())\<close> (0 without a
  \<open>next_start\<close>); for an instant of magnitude below \<open>2^34\<close> seconds \<open>int\<close> of the
  timestamp is the instant rounded toward zero to whole seconds. Changing \<open>start\<close> (or
  \<open>ts\<close>) does not change the key. Two events that agree on the other fields and whose
  \<open>end\<close> and \<open>next_start\<close>, below that magnitude, lie in the same whole second have the
  same key, so that \<open>ensure_texture\<close> for the second, after the first, leaves the renderer
  as it is: no image is drawn and nothing is uploaded.
\<close>

theorem cache_key_ignores_start:
  "cache_key ev =
     (channel_number ev, channel_name ev, title ev, trunc_seconds (end_utc ev), next_title ev,
      (case next_start ev of None \<Rightarrow> 0 | Some t \<Rightarrow> trunc_seconds t))
   \<and> (\<bar>us\<bar> < 2 ^ 34 * 1000000 \<longrightarrow> trunc_seconds us = spec_whole_second us)
   \<and> cache_key (ev\<lparr>start := s', ts := t'\<rparr>) = cache_key ev
   \<and> (channel_number ea = channel_number eb \<and> channel_name ea = channel_name eb
        \<and> title ea = title eb \<and> next_title ea = next_title eb
        \<and> \<bar>end_utc ea\<bar> < 2 ^ 34 * 1000000 \<and> \<bar>end_utc eb\<bar> < 2 ^ 34 * 1000000
        \<and> spec_whole_second (end_utc ea) = spec_whole_second (end_utc eb)
        \<and> (next_start ea = None \<and> next_start eb = None
            \<or> (\<exists>ta tb. next_start ea = Some ta \<and> next_start eb = Some tb
                  \<and> \<bar>ta\<bar> < 2 ^ 34 * 1000000 \<and> \<bar>tb\<bar> < 2 ^ 34 * 1000000
                  \<and> spec_whole_second ta = spec_whole_second tb))
       \<longrightarrow> cache_key ea = cache_key eb
           \<and> ensure_texture (ensure_texture r na ea) nb eb = ensure_texture r na ea
           \<and> n_draw_image (ensure_texture (ensure_texture r na ea) nb eb)
               = n_draw_image (ensure_texture r na ea)
           \<and> n_upload (ensure_texture (ensure_texture r na ea) nb eb)
               = n_upload (ensure_texture r na ea))"
proof (intro conjI impI)
  show "cache_key ev =
     (channel_number ev, channel_name ev, title ev, trunc_seconds (end_utc ev), next_title ev,
      (case next_start ev of None \<Rightarrow> 0 | Some t \<Rightarrow> trunc_seconds t))"
    by (simp add: cache_key_def)
  show "trunc_seconds us = spec_whole_second us" if "\<bar>us\<bar> < 2 ^ 34 * 1000000"
    using that by (rule trunc_seconds_exact)
  show "cache_key (ev\<lparr>start := s', ts := t'\<rparr>) = cache_key ev"
    by (simp add: cache_key_def)
next
  assume h: "channel_number ea = channel_number eb \<and> channel_name ea = channel_name eb
        \<and> title ea = title eb \<and> next_title ea = next_title eb
        \<and> \<bar>end_utc ea\<bar> < 2 ^ 34 * 1000000 \<and> \<bar>end_utc eb\<bar> < 2 ^ 34 * 1000000
        \<and> spec_whole_second (end_utc ea) = spec_whole_second (end_utc eb)
        \<and> (next_start ea = None \<and> next_start eb = None
            \<or> (\<exists>ta tb. next_start ea = Some ta \<and> next_start eb = Some tb
                  \<and> \<bar>ta\<bar> < 2 ^ 34 * 1000000 \<and> \<bar>tb\<bar> < 2 ^ 34 * 1000000
                  \<and> spec_whole_second ta = spec_whole_second tb))"
  have e: "trunc_seconds (end_utc ea) = trunc_seconds (end_utc eb)"
    using h by (simp add: trunc_seconds_exact)
  have n: "(case next_start ea of None \<Rightarrow> 0 | Some t \<Rightarrow> trunc_seconds t)
             = (case next_start eb of None \<Rightarrow> 0 | Some t \<Rightarrow> trunc_seconds t)"
    using h by (auto simp: trunc_seconds_exact)
  show k: "cache_key ea = cache_key eb"
    using h e n by (simp add: cache_key_def)
  have "current_img_key (ensure_texture r na ea) = Some (cache_key eb)"
    by (simp add: ensure_texture_key k)
  then show same: "ensure_texture (ensure_texture r na ea) nb eb = ensure_texture r na ea"
    by (rule ensure_texture_same_key)
  show "n_draw_image (ensure_texture (ensure_texture r na ea) nb eb)
               = n_draw_image (ensure_texture r na ea)"
    by (simp only: same)
  show "n_upload (ensure_texture (ensure_texture r na ea) nb eb)
               = n_upload (ensure_texture r na ea)"
    by (simp only: same)
qed

theorem cache_key_ignores_start_witness:
  "cache_key (ev_movie\<lparr>start := 0, end_utc := 1755382680999999\<rparr>) = cache_key ev_movie
   \<and> cache_key ev_movie = (3, ''TV3'', ''Movie'', 1755382680, Some ''News'', 1755382680)
   \<and> n_draw_image (ensure_texture (ensure_texture (renderer init_app) 5 ev_movie) 6
         (ev_movie\<lparr>start := 0, end_utc := 1755382680999999\<rparr>)) = 1"
proof -
  let ?e2 = "ev_movie\<lparr>start := 0, end_utc := 1755382680999999\<rparr>"
  note inst = cache_key_ignores_start [where ev = ev_movie and ea = ev_movie and eb = ?e2
      and r = "renderer init_app" and na = 5 and nb = 6 and us = 1755382680000000]
  have pre: "channel_number ev_movie = channel_number ?e2 \<and> channel_name ev_movie = channel_name ?e2
        \<and> title ev_movie = title ?e2 \<and> next_title ev_movie = next_title ?e2
        \<and> \<bar>end_utc ev_movie\<bar> < 2 ^ 34 * 1000000 \<and> \<bar>end_utc ?e2\<bar> < 2 ^ 34 * 1000000
        \<and> spec_whole_second (end_utc ev_movie) = spec_whole_second (end_utc ?e2)
        \<and> (next_start ev_movie = None \<and> next_start ?e2 = None
            \<or> (\<exists>ta tb. next_start ev_movie = Some ta \<and> next_start ?e2 = Some tb
                  \<and> \<bar>ta\<bar> < 2 ^ 34 * 1000000 \<and> \<bar>tb\<bar> < 2 ^ 34 * 1000000
                  \<and> spec_whole_second ta = spec_whole_second tb))"
    by (simp add: ev_movie_def spec_whole_second_def)
  have k: "cache_key ev_movie = cache_key ?e2" using inst pre by blast
  have d: "n_draw_image (ensure_texture (ensure_texture (renderer init_app) 5 ev_movie) 6 ?e2)
             = n_draw_image (ensure_texture (renderer init_app) 5 ev_movie)"
    using inst pre by blast
  have "\<bar>1755382680000000\<bar> < (2 ^ 34 * 1000000 :: int)" by simp
  with inst have "trunc_seconds 1755382680000000 = spec_whole_second 1755382680000000" by blast
  then have t: "trunc_seconds 1755382680000000 = 1755382680"
    by (simp add: spec_whole_second_def)
  have v: "cache_key ev_movie = (3, ''TV3'', ''Movie'', 1755382680, Some ''News'', 1755382680)"
    using inst t by (simp add: ev_movie_def)
  have one: "n_draw_image (ensure_texture (renderer init_app) 5 ev_movie) = 1"
    by (simp add: ensure_texture_def init_app_def)
  show ?thesis using k d v one by simp
qed

subsection \<open>The fade\<close>

lemma run_frame_active:
  assumes "event app \<noteq> None"
    and "visible_until app = fade_t0 app + FADE_IN + VIS_SECONDS + FADE_OUT"
    and "t < FADE_IN + VIS_SECONDS + FADE_OUT"
  shows "snd (run_frame (fade_t0 app + t) app) = spec_opacity t"
    and "draw_calls (fst (run_frame (fade_t0 app + t) app)) = draw_calls app @ [spec_opacity t]"
    and "event (fst (run_frame (fade_t0 app + t) app)) = event app"
    and "fade_t0 (fst (run_frame (fade_t0 app + t) app)) = fade_t0 app"
    and "visible_until (fst (run_frame (fade_t0 app + t) app)) = visible_until app"
    and "renderer (fst (run_frame (fade_t0 app + t) app)) = renderer app"
  using assms by (simp_all add: run_frame_def spec_opacity_def Let_def algebra_simps)

lemma run_frames_Cons:
  "run_frames (now # rest) app =
     (fst (run_frames rest (fst (run_frame now app))),
      snd (run_frame now app) # snd (run_frames rest (fst (run_frame now app))))"
  by (simp split: prod.splits)

lemma run_frames_active:
  assumes "event app \<noteq> None"
    and "visible_until app = fade_t0 app + FADE_IN + VIS_SECONDS + FADE_OUT"
    and "\<forall>t\<in>set offs. t < FADE_IN + VIS_SECONDS + FADE_OUT"
  shows "snd (run_frames (map (\<lambda>t. fade_t0 app + t) offs) app) = map spec_opacity offs
       \<and> draw_calls (fst (run_frames (map (\<lambda>t. fade_t0 app + t) offs) app))
           = draw_calls app @ map spec_opacity offs"
  using assms
proof (induction offs arbitrary: app)
  case Nil
  then show ?case by simp
next
  case (Cons t offs)
  let ?a1 = "fst (run_frame (fade_t0 app + t) app)"
  have t: "t < FADE_IN + VIS_SECONDS + FADE_OUT" using Cons.prems(3) by simp
  note f = run_frame_active [OF Cons.prems(1) Cons.prems(2) t]
  have ih: "snd (run_frames (map (\<lambda>t. fade_t0 ?a1 + t) offs) ?a1) = map spec_opacity offs
       \<and> draw_calls (fst (run_frames (map (\<lambda>t. fade_t0 ?a1 + t) offs) ?a1))
           = draw_calls ?a1 @ map spec_opacity offs"
    using Cons.prems by (intro Cons.IH) (simp_all add: f)
  show ?case
    using ih f(1) f(2) by (simp add: f(4) run_frames_Cons del: run_frames.simps)
qed

lemma spec_opacity_range:
  assumes "0 \<le> t"
  shows "0 \<le> spec_opacity t" and "spec_opacity t \<le> 1"
proof -
  have p: "0 < FADE_IN" "0 < FADE_OUT" "0 < VIS_SECONDS"
    by (simp_all add: FADE_IN_def FADE_OUT_def VIS_SECONDS_def)
  show "0 \<le> spec_opacity t"
    using assms p by (simp add: spec_opacity_def)
  show "spec_opacity t \<le> 1"
  proof (cases "t < FADE_IN")
    case True
    then show ?thesis using p by (simp add: spec_opacity_def)
  next
    case False
    then have "0 \<le> (t - FADE_IN - VIS_SECONDS) / FADE_OUT \<or> t < FADE_IN + VIS_SECONDS"
      using p by (cases "t < FADE_IN + VIS_SECONDS") simp_all
    then show ?thesis using False by (auto simp: spec_opacity_def)
  qed
qed

lemma spec_opacity_rise:
  assumes "0 \<le> t" and "t \<le> u" and "u \<le> FADE_IN"
  shows "spec_opacity t \<le> spec_opacity u"
proof -
  have p: "0 < FADE_IN" "0 < VIS_SECONDS"
    by (simp_all add: FADE_IN_def VIS_SECONDS_def)
  show ?thesis
  proof (cases "u < FADE_IN")
    case True
    then show ?thesis using assms p by (simp add: spec_opacity_def divide_right_mono)
  next
    case False
    then have u: "spec_opacity u = 1" using assms p by (simp add: spec_opacity_def)
    show ?thesis using spec_opacity_range(2) [OF assms(1)] u by simp
  qed
qed

lemma spec_opacity_fall:
  assumes "FADE_IN + VIS_SECONDS \<le> t" and "t \<le> u"
  shows "spec_opacity u \<le> spec_opacity t"
proof -
  have p: "0 < FADE_IN" "0 < FADE_OUT" "0 < VIS_SECONDS"
    by (simp_all add: FADE_IN_def FADE_OUT_def VIS_SECONDS_def)
  have nt: "\<not> t < FADE_IN" "\<not> t < FADE_IN + VIS_SECONDS"
    and nu: "\<not> u < FADE_IN" "\<not> u < FADE_IN + VIS_SECONDS"
    using assms p by simp_all
  have "(t - FADE_IN - VIS_SECONDS) / FADE_OUT \<le> (u - FADE_IN - VIS_SECONDS) / FADE_OUT"
    using assms p by (simp add: divide_right_mono)
  then show ?thesis using nt nu by (simp add: spec_opacity_def max_def)
qed

lemma on_event_fields:
  "event (on_event app n t ev) = Some ev"
  "fade_t0 (on_event app n t ev) = t"
  "fade_state (on_event app n t ev) = FadeIn"
  "visible_until (on_event app n t ev) = t + FADE_IN + VIS_SECONDS + FADE_OUT"
  "draw_calls (on_event app n t ev) = draw_calls app"
  "renderer (on_event app n t ev) = ensure_texture (renderer app) n ev"
  "file_mtime (on_event app n t ev) = file_mtime app"
  by (simp_all add: on_event_def)

text \<open>
  C2. After an event is accepted at \<open>t0\<close>, the frames at the offsets \<open>offs\<close>, each in
  \<open>[0, FADE_IN + VIS_SECONDS + FADE_OUT)\<close>, compute and draw exactly the piecewise-linear
  opacity of the specification; every value lies in \<open>[0, 1]\<close>, the values do not decrease
  up to \<open>FADE_IN\<close> and do not increase from \<open>FADE_IN + VIS_SECONDS\<close> on. Time is real:
  float rounding is not modelled.
\<close>

theorem opacity_piecewise:
  assumes "\<forall>t\<in>set offs. 0 \<le> t \<and> t < FADE_IN + VIS_SECONDS + FADE_OUT"
  shows "snd (run_frames (map (\<lambda>t. t0 + t) offs) (on_event app now_utc t0 ev)) = map spec_opacity offs
       \<and> draw_calls (fst (run_frames (map (\<lambda>t. t0 + t) offs) (on_event app now_utc t0 ev)))
           = draw_calls app @ map spec_opacity offs
       \<and> (\<forall>t\<in>set offs. spec_opacity t =
              (if t < FADE_IN then t / FADE_IN
               else if t < FADE_IN + VIS_SECONDS then 1
               else max 0 (1 - (t - FADE_IN - VIS_SECONDS) / FADE_OUT))
            \<and> 0 \<le> spec_opacity t \<and> spec_opacity t \<le> 1)
       \<and> (\<forall>t\<in>set offs. \<forall>u\<in>set offs. t \<le> u \<and> u \<le> FADE_IN \<longrightarrow> spec_opacity t \<le> spec_opacity u)
       \<and> (\<forall>t\<in>set offs. \<forall>u\<in>set offs. FADE_IN + VIS_SECONDS \<le> t \<and> t \<le> u
              \<longrightarrow> spec_opacity u \<le> spec_opacity t)"
proof (intro conjI ballI impI)
  let ?a = "on_event app now_utc t0 ev"
  have e: "event ?a \<noteq> None"
    and v: "visible_until ?a = fade_t0 ?a + FADE_IN + VIS_SECONDS + FADE_OUT"
    by (simp_all add: on_event_fields)
  have b: "\<forall>t\<in>set offs. t < FADE_IN + VIS_SECONDS + FADE_OUT" using assms by simp
  have r: "snd (run_frames (map (\<lambda>t. fade_t0 ?a + t) offs) ?a) = map spec_opacity offs
       \<and> draw_calls (fst (run_frames (map (\<lambda>t. fade_t0 ?a + t) offs) ?a))
           = draw_calls ?a @ map spec_opacity offs"
    using e v b by (rule run_frames_active)
  show "snd (run_frames (map (\<lambda>t. t0 + t) offs) ?a) = map spec_opacity offs"
    using r by (simp add: on_event_fields)
  show "draw_calls (fst (run_frames (map (\<lambda>t. t0 + t) offs) ?a)) = draw_calls app @ map spec_opacity offs"
    using r by (simp add: on_event_fields)
next
  fix t assume "t \<in> set offs"
  then have "0 \<le> t" using assms by simp
  then show "0 \<le> spec_opacity t" "spec_opacity t \<le> 1"
    by (rule spec_opacity_range)+
  show "spec_opacity t =
              (if t < FADE_IN then t / FADE_IN
               else if t < FADE_IN + VIS_SECONDS then 1
               else max 0 (1 - (t - FADE_IN - VIS_SECONDS) / FADE_OUT))"
    by (simp add: spec_opacity_def)
next
  fix t u assume "t \<in> set offs" and h: "t \<le> u \<and> u \<le> FADE_IN"
  then have "0 \<le> t" using assms by simp
  then show "spec_opacity t \<le> spec_opacity u" using h by (simp add: spec_opacity_rise)
next
  fix t u assume "FADE_IN + VIS_SECONDS \<le> t \<and> t \<le> u"
  then show "spec_opacity u \<le> spec_opacity t" by (simp add: spec_opacity_fall)
qed

theorem opacity_piecewise_witness:
  "snd (run_frames (map (\<lambda>t. 100 + t) [0, 9 / 100, 18 / 100, 268 / 100, 518 / 100, 532 / 100])
         (on_event init_app 0 100 ev_movie))
     = [0, 1 / 2, 1, 1, 1, 1 / 2]
   \<and> draw_calls (fst (run_frames
         (map (\<lambda>t. 100 + t) [0, 9 / 100, 18 / 100, 268 / 100, 518 / 100, 532 / 100])
         (on_event init_app 0 100 ev_movie)))
     = [0, 1 / 2, 1, 1, 1, 1 / 2]"
proof -
  let ?offs = "[0, 9 / 100, 18 / 100, 268 / 100, 518 / 100, 532 / 100] :: real list"
  have pre: "\<forall>t\<in>set ?offs. 0 \<le> t \<and> t < FADE_IN + VIS_SECONDS + FADE_OUT"
    by (simp add: FADE_IN_def VIS_SECONDS_def FADE_OUT_def)
  have vals: "map spec_opacity ?offs = [0, 1 / 2, 1, 1, 1, 1 / 2]"
    by (simp add: spec_opacity_def FADE_IN_def VIS_SECONDS_def FADE_OUT_def)
  have d0: "draw_calls init_app = []" by (simp add: init_app_def)
  show ?thesis
    using opacity_piecewise [OF pre, of 100 init_app 0 ev_movie]
    by (simp only: vals d0 append_Nil) 
qed

text \<open>
  C3. At and after \<open>visible_until\<close> the frame computes opacity 0 and does not call
  \<open>draw\<close>, but \<open>fade_state\<close> is not set back to idle: with an event accepted at time 100,
  the frame at time 200 leaves \<open>fade_state\<close> at "in", and after a frame in the fade-out the
  frame at time 200 leaves it at "out".
\<close>

theorem fade_state_not_idle_after_expiry:
  "visible_until (on_event init_app 0 100 ev_movie) \<le> 200
   \<and> run_frame 200 (on_event init_app 0 100 ev_movie) = (on_event init_app 0 100 ev_movie, 0)
   \<and> fade_state (fst (run_frame 200 (on_event init_app 0 100 ev_movie))) = FadeIn
   \<and> draw_calls (fst (run_frame 200 (on_event init_app 0 100 ev_movie))) = []
   \<and> fade_state (fst (run_frames [1053 / 10, 200] (on_event init_app 0 100 ev_movie))) = FadeOut
   \<and> snd (run_frames [1053 / 10, 200] (on_event init_app 0 100 ev_movie)) = [4 / 7, 0]"
  by (simp add: run_frame_def on_event_def init_app_def Let_def
      FADE_IN_def VIS_SECONDS_def FADE_OUT_def)

text \<open>
  Frames at or after \<open>visible_until\<close>, as many as there are and whatever the state: each
  computes opacity 0, none calls \<open>draw\<close>, and the application is left as it was.
\<close>

theorem no_draw_after_expiry:
  assumes "\<forall>now\<in>set nows. visible_until app \<le> now"
  shows "run_frames nows app = (app, map (\<lambda>now. 0) nows)"
  using assms by (induction nows) (simp_all add: run_frame_def)

theorem no_draw_after_expiry_witness:
  "run_frames [10546 / 100, 106, 200] (on_event init_app 0 100 ev_movie)
     = (on_event init_app 0 100 ev_movie, [0, 0, 0])"
proof -
  have "\<forall>now\<in>set [10546 / 100, 106, 200]. visible_until (on_event init_app 0 100 ev_movie) \<le> now"
    by (simp add: on_event_fields FADE_IN_def VIS_SECONDS_def FADE_OUT_def)
  from no_draw_after_expiry [OF this] show ?thesis by simp
qed

subsection \<open>Parsing a payload\<close>

lemma parse_iso_falsy: "\<not> truthy v \<Longrightarrow> parse_iso lib v = Inr None"
  by (simp add: parse_iso_def)


lemma from_json_Inr_iff:
  "from_json lib clk (JObj kvs) = Inr ev \<longleftrightarrow>
     (\<exists>cn st en t ns.
        py_int lib (dict_get kvs ''channel_number'' (JInt 0)) = Inr cn
      \<and> parse_iso lib (dict_get kvs ''start'' JNull) = Inr st
      \<and> parse_iso lib (dict_get kvs ''end'' JNull) = Inr en
      \<and> py_float lib (dict_get kvs ''ts'' (JFloat (Finite (time_ts clk)))) = Inr t
      \<and> (if truthy (dict_get kvs ''next_start'' JNull)
          then parse_iso lib (dict_get kvs ''next_start'' JNull) else Inr None) = Inr ns
      \<and> ev = \<lparr>channel_number = cn,
               channel_name = py_str lib (dict_get kvs ''channel_name'' (JStr [])),
               title = py_str lib (dict_get kvs ''title'' (JStr [])),
               start = (case st of None \<Rightarrow> now_start clk | Some x \<Rightarrow> x),
               end_utc = (case en of None \<Rightarrow> now_end clk | Some x \<Rightarrow> x),
               ts = t,
               next_title = (if truthy (dict_get kvs ''next_title'' JNull)
                             then Some (py_str lib (dict_get kvs ''next_title'' JNull)) else None),
               next_start = ns\<rparr>)"
  by (auto simp: from_json_def ebind_def split: sum.splits)

lemma from_json_not_object:
  "(\<forall>kvs. d \<noteq> JObj kvs) \<Longrightarrow> from_json lib clk d = Inl AttributeError"
  by (cases d) (simp_all add: from_json_def)



subsection \<open>Delivering a payload twice\<close>

lemma on_event_twice:
  "renderer (on_event (on_event app na ta ea) nb tb eb) =
     ensure_texture (ensure_texture (renderer app) na ea) nb eb"
  by (simp add: on_event_def)




lemma read_iso_start:
  "read_iso ''2025-08-16T20:00:00'' = Some \<lparr>wall_us = 1755374400000000, utcoffset = None\<rparr>"
  by code_simp

lemma read_iso_end:
  "read_iso ''2025-08-16T22:18:00'' = Some \<lparr>wall_us = 1755382680000000, utcoffset = None\<rparr>"
  by code_simp

lemma from_json_movie: "from_json sample_lib clk (JObj payload_movie) = Inr ev_movie"
  by (simp add: from_json_def ebind_def dict_get_def parse_iso_def payload_movie_def
      sample_lib_def read_iso_start read_iso_end ev_movie_def)


subsection \<open>Polling the event file\<close>

text \<open>
  C7. A poll opens the file only when \<open>os.stat\<close> succeeds with a modification time greater
  than the one stored, and then stores that time; otherwise, and in particular when the
  file is missing, it changes nothing. When the file is opened and \<open>json.load\<close> or
  \<open>from_json\<close> raises, only the stored time and the count of reads change: the event slot
  and the fade are as before. A later poll that finds a newer file with a payload that
  parses accepts its event. No poll raises: \<open>poll_file\<close> returns the application in every
  case.
\<close>

theorem poll_file_swallows:
  "(file_reads (poll_file lib env app) \<noteq> file_reads app \<longrightarrow>
      (\<exists>m. stat_result env = Inr m \<and> file_mtime app < m))
   \<and> (stat_result env = Inr m \<and> file_mtime app < m \<longrightarrow>
        file_reads (poll_file lib env app) = Suc (file_reads app)
        \<and> file_mtime (poll_file lib env app) = m)
   \<and> (stat_result env = Inr m \<and> m \<le> file_mtime app \<longrightarrow> poll_file lib env app = app)
   \<and> (stat_result env = Inl e \<longrightarrow> poll_file lib env app = app)
   \<and> (stat_result env = Inr m \<and> file_mtime app < m
        \<and> (load_result env = Inl e
            \<or> (\<exists>p. load_result env = Inr p \<and> from_json lib (parse_clk env) p = Inl e)) \<longrightarrow>
        poll_file lib env app = app\<lparr>file_mtime := m, file_reads := Suc (file_reads app)\<rparr>
        \<and> event (poll_file lib env app) = event app
        \<and> fade_t0 (poll_file lib env app) = fade_t0 app
        \<and> visible_until (poll_file lib env app) = visible_until app
        \<and> renderer (poll_file lib env app) = renderer app)
   \<and> (stat_result envb = Inr mb \<and> file_mtime (poll_file lib env app) < mb
        \<and> load_result envb = Inr pb \<and> from_json lib (parse_clk envb) pb = Inr evb \<longrightarrow>
        event (poll_file lib envb (poll_file lib env app)) = Some evb
        \<and> fade_state (poll_file lib envb (poll_file lib env app)) = FadeIn
        \<and> fade_t0 (poll_file lib envb (poll_file lib env app)) = event_time envb
        \<and> file_mtime (poll_file lib envb (poll_file lib env app)) = mb)"
proof (intro conjI impI)
  show "\<exists>m. stat_result env = Inr m \<and> file_mtime app < m"
    if "file_reads (poll_file lib env app) \<noteq> file_reads app"
    using that by (auto simp: poll_file_def split: sum.splits if_splits)
  show "file_reads (poll_file lib env app) = Suc (file_reads app)"
    "file_mtime (poll_file lib env app) = m"
    if "stat_result env = Inr m \<and> file_mtime app < m"
    using that by (auto simp: poll_file_def Let_def on_event_def split: sum.splits)
  show "poll_file lib env app = app" if "stat_result env = Inr m \<and> m \<le> file_mtime app"
    using that by (simp add: poll_file_def)
  show "poll_file lib env app = app" if "stat_result env = Inl e"
    using that by (simp add: poll_file_def)
next
  assume h: "stat_result env = Inr m \<and> file_mtime app < m
        \<and> (load_result env = Inl e
            \<or> (\<exists>p. load_result env = Inr p \<and> from_json lib (parse_clk env) p = Inl e))"
  then show bad: "poll_file lib env app = app\<lparr>file_mtime := m, file_reads := Suc (file_reads app)\<rparr>"
    by (auto simp: poll_file_def Let_def)
  show "event (poll_file lib env app) = event app"
    "fade_t0 (poll_file lib env app) = fade_t0 app"
    "visible_until (poll_file lib env app) = visible_until app"
    "renderer (poll_file lib env app) = renderer app"
    by (simp_all add: bad)
next
  assume h: "stat_result envb = Inr mb \<and> file_mtime (poll_file lib env app) < mb
        \<and> load_result envb = Inr pb \<and> from_json lib (parse_clk envb) pb = Inr evb"
  let ?a = "poll_file lib env app"
  have "poll_file lib envb ?a =
          on_event (?a\<lparr>file_mtime := mb, file_reads := Suc (file_reads ?a)\<rparr>)
            (render_now envb) (event_time envb) evb"
    using h by (simp add: poll_file_def [of lib envb] Let_def)
  then show "event (poll_file lib envb ?a) = Some evb"
    "fade_state (poll_file lib envb ?a) = FadeIn"
    "fade_t0 (poll_file lib envb ?a) = event_time envb"
    "file_mtime (poll_file lib envb ?a) = mb"
    by (simp_all add: on_event_fields)
qed

theorem poll_file_swallows_witness:
  "poll_file sample_lib
      \<lparr>stat_result = Inl FileNotFoundError, load_result = Inl FileNotFoundError,
       parse_clk = \<lparr>now_start = 0, now_end = 0, time_ts = 0\<rparr>, render_now = 0, event_time = 0\<rparr>
      init_app = init_app
   \<and> event (poll_file sample_lib
        \<lparr>stat_result = Inr 10, load_result = Inl JSONDecodeError,
         parse_clk = \<lparr>now_start = 0, now_end = 0, time_ts = 0\<rparr>, render_now = 0, event_time = 0\<rparr>
        init_app) = None
   \<and> event (poll_file sample_lib
        \<lparr>stat_result = Inr 20, load_result = Inr (JObj payload_movie),
         parse_clk = \<lparr>now_start = 7, now_end = 7, time_ts = 7\<rparr>, render_now = 7, event_time = 30\<rparr>
        (poll_file sample_lib
          \<lparr>stat_result = Inr 10, load_result = Inl JSONDecodeError,
           parse_clk = \<lparr>now_start = 0, now_end = 0, time_ts = 0\<rparr>, render_now = 0, event_time = 0\<rparr>
          init_app)) = Some ev_movie"
proof -
  let ?missing = "\<lparr>stat_result = Inl FileNotFoundError, load_result = Inl FileNotFoundError,
       parse_clk = \<lparr>now_start = 0, now_end = 0, time_ts = 0\<rparr>, render_now = 0, event_time = 0\<rparr>"
  let ?bad = "\<lparr>stat_result = Inr 10, load_result = Inl JSONDecodeError,
         parse_clk = \<lparr>now_start = 0, now_end = 0, time_ts = 0\<rparr>, render_now = 0, event_time = 0\<rparr>"
  let ?good = "\<lparr>stat_result = Inr 20, load_result = Inr (JObj payload_movie),
         parse_clk = \<lparr>now_start = 7, now_end = 7, time_ts = 7\<rparr>, render_now = 7, event_time = 30\<rparr>"
  have a: "poll_file sample_lib ?missing init_app = init_app"
    using poll_file_swallows [where lib = sample_lib and env = ?missing and app = init_app
        and e = FileNotFoundError]
    by simp
  note inst = poll_file_swallows [where lib = sample_lib and env = ?bad and app = init_app
      and m = 10 and e = JSONDecodeError and envb = ?good and mb = 20
      and pb = "JObj payload_movie" and evb = ev_movie]
  have m0: "file_mtime init_app = 0" and e0: "event init_app = None"
    by (simp_all add: init_app_def)
  have pre: "stat_result ?bad = Inr 10 \<and> file_mtime init_app < 10
        \<and> (load_result ?bad = Inl JSONDecodeError
            \<or> (\<exists>p. load_result ?bad = Inr p
                  \<and> from_json sample_lib (parse_clk ?bad) p = Inl JSONDecodeError))"
    by (simp add: m0)
  have b: "event (poll_file sample_lib ?bad init_app) = None"
    using inst pre e0 by simp
  have mt: "file_mtime (poll_file sample_lib ?bad init_app) = 10"
    using inst pre by simp
  have pre2: "stat_result ?good = Inr 20 \<and> file_mtime (poll_file sample_lib ?bad init_app) < 20
        \<and> load_result ?good = Inr (JObj payload_movie)
        \<and> from_json sample_lib (parse_clk ?good) (JObj payload_movie) = Inr ev_movie"
    by (simp add: mt from_json_movie)
  have c: "event (poll_file sample_lib ?good (poll_file sample_lib ?bad init_app)) = Some ev_movie"
    using inst pre2 by blast
  show ?thesis using a b c by simp
qed

subsection \<open>Totality of the parser\<close>

text \<open>
  C1, as stated: \<open>from_json\<close> never raises. It does: a \<open>channel_number\<close> that is null
  makes \<open>int()\<close> raise TypeError, and an \<open>end\<close> that is not a timestamp makes
  \<open>fromisoformat\<close> raise ValueError.
\<close>

theorem from_json_raises:
  "from_json sample_lib \<lparr>now_start = 0, now_end = 0, time_ts = 0\<rparr>
      (JObj [(''channel_number'', JNull)]) = Inl TypeError
   \<and> from_json sample_lib \<lparr>now_start = 0, now_end = 0, time_ts = 0\<rparr>
      (JObj [(''end'', JStr ''tomorrow'')]) = Inl ValueError"
  by (simp add: from_json_def ebind_def dict_get_def parse_iso_def sample_lib_def read_iso_def)

lemma py_int_raises:
  "py_int lib v = Inl e \<longleftrightarrow>
     (e = TypeError \<and> (v = JNull \<or> (\<exists>xs. v = JList xs) \<or> (\<exists>kvs. v = JObj kvs)))
     \<or> (e = ValueError \<and> (v = JFloat NaN \<or> (\<exists>s. v = JStr s \<and> str_to_int lib s = None)))
     \<or> (e = OverflowError \<and> (v = JFloat PosInf \<or> v = JFloat NegInf))"
proof (cases v)
  case (JFloat f)
  then show ?thesis by (cases f) auto
qed (auto split: option.splits)

lemma py_float_raises:
  "py_float lib v = Inl e \<longleftrightarrow>
     (e = TypeError \<and> (v = JNull \<or> (\<exists>xs. v = JList xs) \<or> (\<exists>kvs. v = JObj kvs)))
     \<or> (e = ValueError \<and> (\<exists>s. v = JStr s \<and> str_to_float lib s = None))
     \<or> (e = OverflowError \<and> (\<exists>n. v = JInt n \<and> int_to_float lib n = None))"
  by (cases v) (auto split: option.splits)

lemma parse_iso_raises:
  "parse_iso lib v = Inl e \<longleftrightarrow>
     truthy v
     \<and> ((e = TypeError \<and> (\<forall>s. v \<noteq> JStr s))
        \<or> (e = ValueError \<and> (\<exists>s. v = JStr s \<and> fromisoformat lib s = None))
        \<or> (e = OverflowError
            \<and> (\<exists>s dt off. v = JStr s \<and> fromisoformat lib s = Some dt \<and> utcoffset dt = Some off
                  \<and> (wall_us dt - off < MIN_US \<or> MAX_US < wall_us dt - off))))"
  by (cases v) (auto simp: parse_iso_def split: option.splits if_splits)

lemma from_json_first_failure:
  "py_int lib (dict_get kvs ''channel_number'' (JInt 0)) = Inl e
     \<Longrightarrow> from_json lib clk (JObj kvs) = Inl e"
  "py_int lib (dict_get kvs ''channel_number'' (JInt 0)) = Inr cn
     \<Longrightarrow> parse_iso lib (dict_get kvs ''start'' JNull) = Inl e
     \<Longrightarrow> from_json lib clk (JObj kvs) = Inl e"
  "py_int lib (dict_get kvs ''channel_number'' (JInt 0)) = Inr cn
     \<Longrightarrow> parse_iso lib (dict_get kvs ''start'' JNull) = Inr st
     \<Longrightarrow> parse_iso lib (dict_get kvs ''end'' JNull) = Inl e
     \<Longrightarrow> from_json lib clk (JObj kvs) = Inl e"
  "py_int lib (dict_get kvs ''channel_number'' (JInt 0)) = Inr cn
     \<Longrightarrow> parse_iso lib (dict_get kvs ''start'' JNull) = Inr st
     \<Longrightarrow> parse_iso lib (dict_get kvs ''end'' JNull) = Inr en
     \<Longrightarrow> py_float lib (dict_get kvs ''ts'' (JFloat (Finite (time_ts clk)))) = Inl e
     \<Longrightarrow> from_json lib clk (JObj kvs) = Inl e"
  "py_int lib (dict_get kvs ''channel_number'' (JInt 0)) = Inr cn
     \<Longrightarrow> parse_iso lib (dict_get kvs ''start'' JNull) = Inr st
     \<Longrightarrow> parse_iso lib (dict_get kvs ''end'' JNull) = Inr en
     \<Longrightarrow> py_float lib (dict_get kvs ''ts'' (JFloat (Finite (time_ts clk)))) = Inr t
     \<Longrightarrow> parse_iso lib (dict_get kvs ''next_start'' JNull) = Inl e
     \<Longrightarrow> from_json lib clk (JObj kvs) = Inl e"
proof -
  show "from_json lib clk (JObj kvs) = Inl e"
    if "py_int lib (dict_get kvs ''channel_number'' (JInt 0)) = Inl e"
    using that by (simp add: from_json_def ebind_def)
  show "from_json lib clk (JObj kvs) = Inl e"
    if "py_int lib (dict_get kvs ''channel_number'' (JInt 0)) = Inr cn"
      "parse_iso lib (dict_get kvs ''start'' JNull) = Inl e"
    using that by (simp add: from_json_def ebind_def)
  show "from_json lib clk (JObj kvs) = Inl e"
    if "py_int lib (dict_get kvs ''channel_number'' (JInt 0)) = Inr cn"
      "parse_iso lib (dict_get kvs ''start'' JNull) = Inr st"
      "parse_iso lib (dict_get kvs ''end'' JNull) = Inl e"
    using that by (simp add: from_json_def ebind_def)
  show "from_json lib clk (JObj kvs) = Inl e"
    if "py_int lib (dict_get kvs ''channel_number'' (JInt 0)) = Inr cn"
      "parse_iso lib (dict_get kvs ''start'' JNull) = Inr st"
      "parse_iso lib (dict_get kvs ''end'' JNull) = Inr en"
      "py_float lib (dict_get kvs ''ts'' (JFloat (Finite (time_ts clk)))) = Inl e"
    using that by (simp add: from_json_def ebind_def)
  show "from_json lib clk (JObj kvs) = Inl e"
    if "py_int lib (dict_get kvs ''channel_number'' (JInt 0)) = Inr cn"
      "parse_iso lib (dict_get kvs ''start'' JNull) = Inr st"
      "parse_iso lib (dict_get kvs ''end'' JNull) = Inr en"
      "py_float lib (dict_get kvs ''ts'' (JFloat (Finite (time_ts clk)))) = Inr t"
      "parse_iso lib (dict_get kvs ''next_start'' JNull) = Inl e"
  proof -
    have "truthy (dict_get kvs ''next_start'' JNull)"
      using that(5) parse_iso_falsy [of "dict_get kvs ''next_start'' JNull" lib] by auto
    then show ?thesis using that by (simp add: from_json_def ebind_def)
  qed
qed

lemma from_json_failure_cases:
  assumes "from_json lib clk d = Inl e"
  shows "(e = AttributeError \<and> (\<forall>kvs. d \<noteq> JObj kvs))
       \<or> (\<exists>kvs. d = JObj kvs
            \<and> (py_int lib (dict_get kvs ''channel_number'' (JInt 0)) = Inl e
               \<or> parse_iso lib (dict_get kvs ''start'' JNull) = Inl e
               \<or> parse_iso lib (dict_get kvs ''end'' JNull) = Inl e
               \<or> py_float lib (dict_get kvs ''ts'' (JFloat (Finite (time_ts clk)))) = Inl e
               \<or> parse_iso lib (dict_get kvs ''next_start'' JNull) = Inl e))"
proof (cases d)
  case (JObj kvs)
  then show ?thesis
    using assms
    by (auto simp: from_json_def ebind_def split: sum.splits if_splits)
qed (use assms in \<open>simp_all add: from_json_def\<close>)

lemma poll_file_parse_failure:
  assumes "load_result env = Inr p" and "from_json lib (parse_clk env) p = Inl e"
  shows "event (poll_file lib env app) = event app"
    and "fade_state (poll_file lib env app) = fade_state app"
    and "fade_t0 (poll_file lib env app) = fade_t0 app"
    and "visible_until (poll_file lib env app) = visible_until app"
    and "renderer (poll_file lib env app) = renderer app"
  using assms by (auto simp: poll_file_def Let_def split: sum.splits)

lemma from_json_returns:
  "from_json lib clk (JObj []) =
     Inr \<lparr>channel_number = 0, channel_name = [], title = [], start = now_start clk,
          end_utc = now_end clk, ts = Finite (time_ts clk), next_title = None, next_start = None\<rparr>
   \<and> ((\<exists>ev. from_json lib clk d = Inr ev) \<longleftrightarrow>
         (\<exists>kvs. d = JObj kvs
            \<and> (\<exists>cn. py_int lib (dict_get kvs ''channel_number'' (JInt 0)) = Inr cn)
            \<and> (\<exists>st. parse_iso lib (dict_get kvs ''start'' JNull) = Inr st)
            \<and> (\<exists>en. parse_iso lib (dict_get kvs ''end'' JNull) = Inr en)
            \<and> (\<exists>t. py_float lib (dict_get kvs ''ts'' (JFloat (Finite (time_ts clk)))) = Inr t)
            \<and> (\<exists>ns. parse_iso lib (dict_get kvs ''next_start'' JNull) = Inr ns)))
   \<and> (from_json lib clk (JObj kvs) = Inr ev \<longrightarrow>
         (map_of kvs ''channel_number'' = None \<longrightarrow> channel_number ev = 0)
       \<and> (map_of kvs ''channel_name'' = None \<longrightarrow> channel_name ev = [])
       \<and> (map_of kvs ''title'' = None \<longrightarrow> title ev = [])
       \<and> (\<not> truthy (dict_get kvs ''start'' JNull) \<longrightarrow> start ev = now_start clk)
       \<and> (\<not> truthy (dict_get kvs ''end'' JNull) \<longrightarrow> end_utc ev = now_end clk)
       \<and> (map_of kvs ''ts'' = None \<longrightarrow> ts ev = Finite (time_ts clk))
       \<and> (\<not> truthy (dict_get kvs ''next_title'' JNull) \<longrightarrow> next_title ev = None)
       \<and> (\<not> truthy (dict_get kvs ''next_start'' JNull) \<longrightarrow> next_start ev = None))
   \<and> ((\<forall>kvs. d \<noteq> JObj kvs) \<longrightarrow> from_json lib clk d = Inl AttributeError)
   \<and> (map_of kvs ''channel_number'' = Some JNull \<longrightarrow> from_json lib clk (JObj kvs) = Inl TypeError)
   \<and> (s \<noteq> [] \<and> fromisoformat lib s = None \<longrightarrow>
         from_json lib clk (JObj [(''end'', JStr s)]) = Inl ValueError)"
proof (intro conjI)
  show "from_json lib clk (JObj []) =
     Inr \<lparr>channel_number = 0, channel_name = [], title = [], start = now_start clk,
          end_utc = now_end clk, ts = Finite (time_ts clk), next_title = None, next_start = None\<rparr>"
    by (simp add: from_json_def ebind_def dict_get_def parse_iso_def)
  show "(\<exists>ev. from_json lib clk d = Inr ev) \<longleftrightarrow>
         (\<exists>kvs. d = JObj kvs
            \<and> (\<exists>cn. py_int lib (dict_get kvs ''channel_number'' (JInt 0)) = Inr cn)
            \<and> (\<exists>st. parse_iso lib (dict_get kvs ''start'' JNull) = Inr st)
            \<and> (\<exists>en. parse_iso lib (dict_get kvs ''end'' JNull) = Inr en)
            \<and> (\<exists>t. py_float lib (dict_get kvs ''ts'' (JFloat (Finite (time_ts clk)))) = Inr t)
            \<and> (\<exists>ns. parse_iso lib (dict_get kvs ''next_start'' JNull) = Inr ns))"
  proof (cases d)
    case (JObj kvs)
    let ?nsv = "dict_get kvs ''next_start'' JNull"
    have nsx: "\<exists>ns. parse_iso lib ?nsv = Inr ns"
      if "(if truthy ?nsv then parse_iso lib ?nsv else Inr None) = Inr ns0" for ns0
      using that by (cases "truthy ?nsv") (simp_all add: parse_iso_falsy)
    have nsy: "\<exists>ns0. (if truthy ?nsv then parse_iso lib ?nsv else Inr None) = Inr ns0"
      if "parse_iso lib ?nsv = Inr ns" for ns
      using that by simp
    show ?thesis
    proof
      assume "\<exists>ev. from_json lib clk d = Inr ev"
      then obtain cn st en t ns0 where
        "py_int lib (dict_get kvs ''channel_number'' (JInt 0)) = Inr cn"
        "parse_iso lib (dict_get kvs ''start'' JNull) = Inr st"
        "parse_iso lib (dict_get kvs ''end'' JNull) = Inr en"
        "py_float lib (dict_get kvs ''ts'' (JFloat (Finite (time_ts clk)))) = Inr t"
        "(if truthy ?nsv then parse_iso lib ?nsv else Inr None) = Inr ns0"
        unfolding JObj from_json_Inr_iff by blast
      then show "\<exists>kvs. d = JObj kvs
            \<and> (\<exists>cn. py_int lib (dict_get kvs ''channel_number'' (JInt 0)) = Inr cn)
            \<and> (\<exists>st. parse_iso lib (dict_get kvs ''start'' JNull) = Inr st)
            \<and> (\<exists>en. parse_iso lib (dict_get kvs ''end'' JNull) = Inr en)
            \<and> (\<exists>t. py_float lib (dict_get kvs ''ts'' (JFloat (Finite (time_ts clk)))) = Inr t)
            \<and> (\<exists>ns. parse_iso lib (dict_get kvs ''next_start'' JNull) = Inr ns)"
        using nsx JObj by blast
    next
      assume "\<exists>kvs. d = JObj kvs
            \<and> (\<exists>cn. py_int lib (dict_get kvs ''channel_number'' (JInt 0)) = Inr cn)
            \<and> (\<exists>st. parse_iso lib (dict_get kvs ''start'' JNull) = Inr st)
            \<and> (\<exists>en. parse_iso lib (dict_get kvs ''end'' JNull) = Inr en)
            \<and> (\<exists>t. py_float lib (dict_get kvs ''ts'' (JFloat (Finite (time_ts clk)))) = Inr t)
            \<and> (\<exists>ns. parse_iso lib (dict_get kvs ''next_start'' JNull) = Inr ns)"
      then obtain cn st en t ns where
        a: "py_int lib (dict_get kvs ''channel_number'' (JInt 0)) = Inr cn"
        "parse_iso lib (dict_get kvs ''start'' JNull) = Inr st"
        "parse_iso lib (dict_get kvs ''end'' JNull) = Inr en"
        "py_float lib (dict_get kvs ''ts'' (JFloat (Finite (time_ts clk)))) = Inr t"
        and b: "parse_iso lib ?nsv = Inr ns"
        using JObj by auto
      from nsy [OF b] obtain ns0 where
        c: "(if truthy ?nsv then parse_iso lib ?nsv else Inr None) = Inr ns0" ..
      show "\<exists>ev. from_json lib clk d = Inr ev"
        unfolding JObj from_json_Inr_iff using a c by blast
    qed
  qed (simp_all add: from_json_def)
  show "from_json lib clk (JObj kvs) = Inr ev \<longrightarrow>
         (map_of kvs ''channel_number'' = None \<longrightarrow> channel_number ev = 0)
       \<and> (map_of kvs ''channel_name'' = None \<longrightarrow> channel_name ev = [])
       \<and> (map_of kvs ''title'' = None \<longrightarrow> title ev = [])
       \<and> (\<not> truthy (dict_get kvs ''start'' JNull) \<longrightarrow> start ev = now_start clk)
       \<and> (\<not> truthy (dict_get kvs ''end'' JNull) \<longrightarrow> end_utc ev = now_end clk)
       \<and> (map_of kvs ''ts'' = None \<longrightarrow> ts ev = Finite (time_ts clk))
       \<and> (\<not> truthy (dict_get kvs ''next_title'' JNull) \<longrightarrow> next_title ev = None)
       \<and> (\<not> truthy (dict_get kvs ''next_start'' JNull) \<longrightarrow> next_start ev = None)"
    unfolding from_json_Inr_iff
    by (auto simp: dict_get_def parse_iso_falsy)
  show "(\<forall>kvs. d \<noteq> JObj kvs) \<longrightarrow> from_json lib clk d = Inl AttributeError"
    by (simp add: from_json_not_object)
  show "map_of kvs ''channel_number'' = Some JNull \<longrightarrow> from_json lib clk (JObj kvs) = Inl TypeError"
    by (simp add: from_json_def ebind_def dict_get_def)
  show "s \<noteq> [] \<and> fromisoformat lib s = None \<longrightarrow>
         from_json lib clk (JObj [(''end'', JStr s)]) = Inl ValueError"
    by (simp add: from_json_def ebind_def dict_get_def parse_iso_def)
qed

lemma read_iso_year_one:
  "read_iso ''0001-01-01T00:00:00+01:00''
     = Some \<lparr>wall_us = - 62135596800000000, utcoffset = Some 3600000000\<rparr>"
  by code_simp

text \<open>
  C1, amended. \<open>from_json\<close> returns an event exactly for the objects whose
  \<open>channel_number\<close> converts with \<open>int\<close>, whose \<open>ts\<close> converts with \<open>float\<close> and whose
  \<open>start\<close>, \<open>end\<close> and \<open>next_start\<close> are false values or strings that \<open>fromisoformat\<close>
  reads and that stay within the years 1 to 9999 when moved to UTC; then every field whose
  key is missing (or, for the times and the next title, whose value is false) has its
  default: 0, the empty string, the clock, or None. On any other input it raises the
  exception of the first conversion that fails, in the order \<open>channel_number\<close>, \<open>start\<close>,
  \<open>end\<close>, \<open>ts\<close>, \<open>next_start\<close>: TypeError for a null, list or object where a number is
  converted and for a true value that is not a string where a time is read; ValueError for
  a string that the conversion rejects and for \<open>int\<close> of NaN; OverflowError for \<open>int\<close> of
  an infinity, for \<open>float\<close> of an integer that is too large, and for a time that leaves
  the range of years; AttributeError for a payload that is not an object. Both transports
  pass over the exception: the datagram path leaves the application as it is, the file
  poll leaves the event slot, the fade and the renderer as they are.
\<close>

theorem from_json_defaults:
  "from_json lib clk (JObj []) =
     Inr \<lparr>channel_number = 0, channel_name = [], title = [], start = now_start clk,
          end_utc = now_end clk, ts = Finite (time_ts clk), next_title = None, next_start = None\<rparr>
   \<and> ((\<exists>ev. from_json lib clk d = Inr ev) \<longleftrightarrow>
         (\<exists>kvs. d = JObj kvs
            \<and> (\<exists>cn. py_int lib (dict_get kvs ''channel_number'' (JInt 0)) = Inr cn)
            \<and> (\<exists>st. parse_iso lib (dict_get kvs ''start'' JNull) = Inr st)
            \<and> (\<exists>en. parse_iso lib (dict_get kvs ''end'' JNull) = Inr en)
            \<and> (\<exists>t. py_float lib (dict_get kvs ''ts'' (JFloat (Finite (time_ts clk)))) = Inr t)
            \<and> (\<exists>ns. parse_iso lib (dict_get kvs ''next_start'' JNull) = Inr ns)))
   \<and> (from_json lib clk (JObj kvs) = Inr ev \<longrightarrow>
         (map_of kvs ''channel_number'' = None \<longrightarrow> channel_number ev = 0)
       \<and> (map_of kvs ''channel_name'' = None \<longrightarrow> channel_name ev = [])
       \<and> (map_of kvs ''title'' = None \<longrightarrow> title ev = [])
       \<and> (\<not> truthy (dict_get kvs ''start'' JNull) \<longrightarrow> start ev = now_start clk)
       \<and> (\<not> truthy (dict_get kvs ''end'' JNull) \<longrightarrow> end_utc ev = now_end clk)
       \<and> (map_of kvs ''ts'' = None \<longrightarrow> ts ev = Finite (time_ts clk))
       \<and> (\<not> truthy (dict_get kvs ''next_title'' JNull) \<longrightarrow> next_title ev = None)
       \<and> (\<not> truthy (dict_get kvs ''next_start'' JNull) \<longrightarrow> next_start ev = None))
   \<and> ((\<forall>kvs. d \<noteq> JObj kvs) \<longrightarrow> from_json lib clk d = Inl AttributeError)
   \<and> (map_of kvs ''channel_number'' = Some JNull \<longrightarrow> from_json lib clk (JObj kvs) = Inl TypeError)
   \<and> (s \<noteq> [] \<and> fromisoformat lib s = None \<longrightarrow>
         from_json lib clk (JObj [(''end'', JStr s)]) = Inl ValueError)
   \<and> (from_json lib clk d = Inl e \<longrightarrow>
         (e = AttributeError \<and> (\<forall>kvs. d \<noteq> JObj kvs))
         \<or> (\<exists>kvs. d = JObj kvs
              \<and> (py_int lib (dict_get kvs ''channel_number'' (JInt 0)) = Inl e
                 \<or> parse_iso lib (dict_get kvs ''start'' JNull) = Inl e
                 \<or> parse_iso lib (dict_get kvs ''end'' JNull) = Inl e
                 \<or> py_float lib (dict_get kvs ''ts'' (JFloat (Finite (time_ts clk)))) = Inl e
                 \<or> parse_iso lib (dict_get kvs ''next_start'' JNull) = Inl e)))
   \<and> (py_int lib (dict_get kvs ''channel_number'' (JInt 0)) = Inl e \<longrightarrow>
         from_json lib clk (JObj kvs) = Inl e)
   \<and> (py_int lib (dict_get kvs ''channel_number'' (JInt 0)) = Inr cn
        \<and> parse_iso lib (dict_get kvs ''start'' JNull) = Inl e \<longrightarrow>
         from_json lib clk (JObj kvs) = Inl e)
   \<and> (py_int lib (dict_get kvs ''channel_number'' (JInt 0)) = Inr cn
        \<and> parse_iso lib (dict_get kvs ''start'' JNull) = Inr st
        \<and> parse_iso lib (dict_get kvs ''end'' JNull) = Inl e \<longrightarrow>
         from_json lib clk (JObj kvs) = Inl e)
   \<and> (py_int lib (dict_get kvs ''channel_number'' (JInt 0)) = Inr cn
        \<and> parse_iso lib (dict_get kvs ''start'' JNull) = Inr st
        \<and> parse_iso lib (dict_get kvs ''end'' JNull) = Inr en
        \<and> py_float lib (dict_get kvs ''ts'' (JFloat (Finite (time_ts clk)))) = Inl e \<longrightarrow>
         from_json lib clk (JObj kvs) = Inl e)
   \<and> (py_int lib (dict_get kvs ''channel_number'' (JInt 0)) = Inr cn
        \<and> parse_iso lib (dict_get kvs ''start'' JNull) = Inr st
        \<and> parse_iso lib (dict_get kvs ''end'' JNull) = Inr en
        \<and> py_float lib (dict_get kvs ''ts'' (JFloat (Finite (time_ts clk)))) = Inr tf
        \<and> parse_iso lib (dict_get kvs ''next_start'' JNull) = Inl e \<longrightarrow>
         from_json lib clk (JObj kvs) = Inl e)
   \<and> (py_int lib v = Inl e \<longleftrightarrow>
         (e = TypeError \<and> (v = JNull \<or> (\<exists>xs. v = JList xs) \<or> (\<exists>ys. v = JObj ys)))
         \<or> (e = ValueError \<and> (v = JFloat NaN \<or> (\<exists>x. v = JStr x \<and> str_to_int lib x = None)))
         \<or> (e = OverflowError \<and> (v = JFloat PosInf \<or> v = JFloat NegInf)))
   \<and> (py_float lib v = Inl e \<longleftrightarrow>
         (e = TypeError \<and> (v = JNull \<or> (\<exists>xs. v = JList xs) \<or> (\<exists>ys. v = JObj ys)))
         \<or> (e = ValueError \<and> (\<exists>x. v = JStr x \<and> str_to_float lib x = None))
         \<or> (e = OverflowError \<and> (\<exists>n. v = JInt n \<and> int_to_float lib n = None)))
   \<and> (parse_iso lib v = Inl e \<longleftrightarrow>
         truthy v
         \<and> ((e = TypeError \<and> (\<forall>x. v \<noteq> JStr x))
            \<or> (e = ValueError \<and> (\<exists>x. v = JStr x \<and> fromisoformat lib x = None))
            \<or> (e = OverflowError
                \<and> (\<exists>x dt off. v = JStr x \<and> fromisoformat lib x = Some dt
                      \<and> utcoffset dt = Some off
                      \<and> (wall_us dt - off < MIN_US \<or> MAX_US < wall_us dt - off)))))
   \<and> (from_json lib clk p = Inl e \<longrightarrow> udp_deliver lib clk na ta (Inr p) app = app)
   \<and> (load_result env = Inr p \<and> from_json lib (parse_clk env) p = Inl e \<longrightarrow>
         event (poll_file lib env app) = event app
         \<and> fade_state (poll_file lib env app) = fade_state app
         \<and> fade_t0 (poll_file lib env app) = fade_t0 app
         \<and> visible_until (poll_file lib env app) = visible_until app
         \<and> renderer (poll_file lib env app) = renderer app)"
proof -
  note old = from_json_returns [of lib clk d kvs ev s]
  have fail: "from_json lib clk d = Inl e \<longrightarrow>
         (e = AttributeError \<and> (\<forall>kvs. d \<noteq> JObj kvs))
         \<or> (\<exists>kvs. d = JObj kvs
              \<and> (py_int lib (dict_get kvs ''channel_number'' (JInt 0)) = Inl e
                 \<or> parse_iso lib (dict_get kvs ''start'' JNull) = Inl e
                 \<or> parse_iso lib (dict_get kvs ''end'' JNull) = Inl e
                 \<or> py_float lib (dict_get kvs ''ts'' (JFloat (Finite (time_ts clk)))) = Inl e
                 \<or> parse_iso lib (dict_get kvs ''next_start'' JNull) = Inl e))"
    using from_json_failure_cases [of lib clk d e] by blast
  have udp: "from_json lib clk p = Inl e \<longrightarrow> udp_deliver lib clk na ta (Inr p) app = app"
    by (simp add: udp_deliver_def)
  have poll: "load_result env = Inr p \<and> from_json lib (parse_clk env) p = Inl e \<longrightarrow>
         event (poll_file lib env app) = event app
         \<and> fade_state (poll_file lib env app) = fade_state app
         \<and> fade_t0 (poll_file lib env app) = fade_t0 app
         \<and> visible_until (poll_file lib env app) = visible_until app
         \<and> renderer (poll_file lib env app) = renderer app"
    using poll_file_parse_failure [of env p lib e app] by blast
  show ?thesis
    apply (intro conjI)
    apply (rule old [THEN conjunct1])
    apply (rule old [THEN conjunct2, THEN conjunct1])
    apply (rule old [THEN conjunct2, THEN conjunct2, THEN conjunct1])
    apply (rule old [THEN conjunct2, THEN conjunct2, THEN conjunct2, THEN conjunct1])
    apply (rule old [THEN conjunct2, THEN conjunct2, THEN conjunct2, THEN conjunct2, THEN conjunct1])
    apply (rule old [THEN conjunct2, THEN conjunct2, THEN conjunct2, THEN conjunct2, THEN conjunct2])
    apply (rule fail)
    using from_json_first_failure(1) [of lib kvs e clk] apply blast
    using from_json_first_failure(2) [of lib kvs cn e clk] apply blast
    using from_json_first_failure(3) [of lib kvs cn st e clk] apply blast
    using from_json_first_failure(4) [of lib kvs cn st en clk e] apply blast
    using from_json_first_failure(5) [of lib kvs cn st en clk tf e] apply blast
    apply (rule py_int_raises)
    apply (rule py_float_raises)
    apply (rule parse_iso_raises)
    apply (rule udp)
    apply (rule poll)
    done
qed

theorem from_json_defaults_witness:
  "from_json sample_lib \<lparr>now_start = 5, now_end = 6, time_ts = 7\<rparr> (JObj [])
     = Inr \<lparr>channel_number = 0, channel_name = [], title = [], start = 5, end_utc = 6,
            ts = Finite 7, next_title = None, next_start = None\<rparr>
   \<and> (\<exists>ev. from_json sample_lib \<lparr>now_start = 5, now_end = 6, time_ts = 7\<rparr>
              (JObj [(''channel_number'', JInt 3), (''channel_name'', JStr ''TV3''),
                     (''title'', JStr ''Movie'')]) = Inr ev
          \<and> channel_number ev = 3 \<and> channel_name ev = ''TV3'' \<and> title ev = ''Movie''
          \<and> start ev = 5 \<and> end_utc ev = 6 \<and> ts ev = Finite 7
          \<and> next_title ev = None \<and> next_start ev = None)
   \<and> from_json sample_lib \<lparr>now_start = 5, now_end = 6, time_ts = 7\<rparr> (JList []) = Inl AttributeError
   \<and> from_json sample_lib \<lparr>now_start = 5, now_end = 6, time_ts = 7\<rparr>
        (JObj [(''channel_number'', JNull)]) = Inl TypeError
   \<and> from_json sample_lib \<lparr>now_start = 5, now_end = 6, time_ts = 7\<rparr>
        (JObj [(''channel_number'', JFloat PosInf)]) = Inl OverflowError
   \<and> from_json sample_lib \<lparr>now_start = 5, now_end = 6, time_ts = 7\<rparr>
        (JObj [(''ts'', JList [])]) = Inl TypeError
   \<and> from_json sample_lib \<lparr>now_start = 5, now_end = 6, time_ts = 7\<rparr>
        (JObj [(''start'', JInt 5)]) = Inl TypeError
   \<and> from_json sample_lib \<lparr>now_start = 5, now_end = 6, time_ts = 7\<rparr>
        (JObj [(''end'', JStr ''0001-01-01T00:00:00+01:00'')]) = Inl OverflowError
   \<and> udp_deliver sample_lib \<lparr>now_start = 5, now_end = 6, time_ts = 7\<rparr> 0 0
        (Inr (JObj [(''channel_number'', JNull)])) init_app = init_app"
proof -
  let ?clk = "\<lparr>now_start = 5, now_end = 6, time_ts = 7\<rparr>"
  let ?kvs = "[(''channel_number'', JInt 3), (''channel_name'', JStr ''TV3''),
               (''title'', JStr ''Movie'')]"
  let ?env = "\<lparr>stat_result = Inr 10, load_result = Inr (JObj [(''channel_number'', JNull)]),
               parse_clk = ?clk, render_now = 0, event_time = 0\<rparr>"
  let ?ev = "\<lparr>channel_number = 3, channel_name = ''TV3'', title = ''Movie'', start = 5,
              end_utc = 6, ts = Finite 7, next_title = None, next_start = None\<rparr>"
  have ok: "from_json sample_lib ?clk (JObj ?kvs) = Inr ?ev"
    by (simp add: from_json_def ebind_def dict_get_def parse_iso_def)
  note inst = from_json_defaults [where lib = sample_lib and clk = ?clk and kvs = ?kvs
      and ev = ?ev and d = "JList []" and s = "''tomorrow''"]
  have a: "from_json sample_lib ?clk (JObj []) =
      Inr \<lparr>channel_number = 0, channel_name = [], title = [], start = 5, end_utc = 6,
            ts = Finite 7, next_title = None, next_start = None\<rparr>"
    using inst by simp
  have b: "start ?ev = 5 \<and> end_utc ?ev = 6 \<and> ts ?ev = Finite 7
          \<and> next_title ?ev = None \<and> next_start ?ev = None"
    using inst ok by (simp add: dict_get_def)
  have c: "from_json sample_lib ?clk (JList []) = Inl AttributeError"
    using inst by simp
  have d: "from_json sample_lib ?clk (JObj [(''channel_number'', JNull)]) = Inl TypeError"
    using from_json_defaults [where lib = sample_lib and clk = ?clk
        and kvs = "[(''channel_number'', JNull)]"]
    by simp
  have e: "from_json sample_lib ?clk (JObj [(''channel_number'', JFloat PosInf)]) = Inl OverflowError"
    using from_json_defaults [where lib = sample_lib and clk = ?clk
        and kvs = "[(''channel_number'', JFloat PosInf)]" and e = OverflowError]
    by (simp add: dict_get_def)
  have f: "from_json sample_lib ?clk (JObj [(''ts'', JList [])]) = Inl TypeError"
    using from_json_defaults [where lib = sample_lib and clk = ?clk
        and kvs = "[(''ts'', JList [])]" and e = TypeError and cn = 0 and st = None and en = None]
    by (simp add: dict_get_def parse_iso_def)
  have g: "from_json sample_lib ?clk (JObj [(''start'', JInt 5)]) = Inl TypeError"
    using from_json_defaults [where lib = sample_lib and clk = ?clk
        and kvs = "[(''start'', JInt 5)]" and e = TypeError and cn = 0]
    by (simp add: dict_get_def parse_iso_def)
  have pe: "parse_iso sample_lib (JStr ''0001-01-01T00:00:00+01:00'') = Inl OverflowError"
    by (simp add: parse_iso_def sample_lib_def read_iso_year_one MIN_US_def)
  have h: "from_json sample_lib ?clk (JObj [(''end'', JStr ''0001-01-01T00:00:00+01:00'')])
             = Inl OverflowError"
    using from_json_defaults [where lib = sample_lib and clk = ?clk
        and kvs = "[(''end'', JStr ''0001-01-01T00:00:00+01:00'')]" and e = OverflowError
        and cn = 0 and st = None] pe
    by (simp add: dict_get_def parse_iso_falsy)
  have "from_json sample_lib ?clk (JObj [(''channel_number'', JNull)]) = Inl TypeError \<longrightarrow>
          udp_deliver sample_lib ?clk 0 0 (Inr (JObj [(''channel_number'', JNull)])) init_app
            = init_app"
    using from_json_defaults [where lib = sample_lib and clk = ?clk
        and p = "JObj [(''channel_number'', JNull)]" and e = TypeError
        and na = 0 and ta = 0 and app = init_app and d = JNull and kvs = "[]" and ev = ?ev
        and s = "[]" and cn = 0 and st = None and en = None and tf = "Finite 0" and v = JNull
        and env = ?env]
    by (elim conjE) assumption
  then have u: "udp_deliver sample_lib ?clk 0 0 (Inr (JObj [(''channel_number'', JNull)])) init_app
             = init_app"
    using d by simp
  show ?thesis using a ok b c d e f g h u by simp
qed

subsection \<open>The producer\<close>






subsection \<open>The status hook\<close>

lemma hook_extract_channel_number:
  "n \<noteq> 0 \<Longrightarrow> hook_extract lib [(''channel_number'', JInt n)] = Inr (n, [], [], None, None, JNull, None)"
  by (simp add: hook_extract_def ebind_def dict_get_def sub_get_def obj_get_def get_or_def
      to_dt_def py_or_def Let_def)

lemmas hx = hook_extract_def ebind_def dict_get_def sub_get_def obj_get_def get_or_def
      to_dt_def py_or_def Let_def

lemma hook_extract_channelNum:
  "n \<noteq> 0 \<Longrightarrow> hook_extract lib [(''channelNum'', JInt n)] = Inr (n, [], [], None, None, JNull, None)"
  by (simp add: hx)

lemma hook_extract_channel_obj:
  "n \<noteq> 0 \<Longrightarrow> hook_extract lib [(''channel'', JObj [(''number'', JInt n)])]
      = Inr (n, [], [], None, None, JNull, None)"
  by (simp add: hx)

lemma hook_extract_channel_name:
  "c \<noteq> [] \<Longrightarrow> hook_extract lib [(''channel_name'', JStr c)] = Inr (0, c, [], None, None, JNull, None)"
  by (simp add: hx)

lemma hook_extract_channel_obj_name:
  "c \<noteq> [] \<Longrightarrow> hook_extract lib [(''channel'', JObj [(''name'', JStr c)])]
      = Inr (0, c, [], None, None, JNull, None)"
  by (simp add: hx)

lemma hook_extract_now_title:
  "x \<noteq> [] \<Longrightarrow> hook_extract lib [(''now'', JObj [(''title'', JStr x)])]
     = Inr (0, [], x, None, None, JNull, None)"
  by (simp add: hx)

lemma hook_extract_absent:
  assumes "map_of payload ''channel_number'' = None" "map_of payload ''channelNum'' = None"
    "map_of payload ''channel'' = None" "map_of payload ''channel_name'' = None"
    "map_of payload ''now'' = None" "map_of payload ''current'' = None"
    "map_of payload ''programme'' = None" "map_of payload ''next'' = None"
    "map_of payload ''up_next'' = None"
  shows "hook_extract lib payload = Inr (0, [], [], None, None, JNull, None)"
  using assms by (simp add: hx)

text \<open>
  C9. The wrapper's outcome is the original function's outcome, whatever the arguments, the
  library and the system calls do: it returns the original's value unchanged and raises
  nothing of its own (an exception of the original itself passes through). The world
  changes only through \<open>send_infobar_event\<close>, called only when a non-empty dictionary
  was found among the arguments and the extraction returned a channel name and a current
  title that are not empty. The extraction reads the channel number from
  \<open>channel_number\<close>, \<open>channelNum\<close> or \<open>channel.number\<close>, the channel name from
  \<open>channel_name\<close> or \<open>channel.name\<close>, the programme from \<open>now\<close>, \<open>current\<close> or
  \<open>programme\<close> with its title under \<open>title\<close> or \<open>name\<close>, and gives 0, the empty string
  and None for what is absent.
\<close>

theorem update_status_socket_transparent:
  "fst (update_status_socket lib io w orig args kwargs) = orig
   \<and> (snd (update_status_socket lib io w orig args kwargs) \<noteq> w \<longrightarrow>
        (\<exists>rv payload n c x st en nt ns.
            orig = Inr rv \<and> find_payload args kwargs = Some (JObj payload) \<and> payload \<noteq> []
          \<and> hook_extract lib payload = Inr (n, c, x, st, en, nt, ns) \<and> c \<noteq> [] \<and> x \<noteq> []
          \<and> snd (update_status_socket lib io w orig args kwargs)
              = snd (send_infobar_event lib io w n c x st en nt ns)))
   \<and> (map_of p ''channel_number'' = None \<and> map_of p ''channelNum'' = None
        \<and> map_of p ''channel'' = None \<and> map_of p ''channel_name'' = None
        \<and> map_of p ''now'' = None \<and> map_of p ''current'' = None
        \<and> map_of p ''programme'' = None \<and> map_of p ''next'' = None
        \<and> map_of p ''up_next'' = None \<longrightarrow>
        hook_extract lib p = Inr (0, [], [], None, None, JNull, None))
   \<and> (k \<noteq> 0 \<longrightarrow>
        hook_extract lib [(''channel_number'', JInt k)] = Inr (k, [], [], None, None, JNull, None)
        \<and> hook_extract lib [(''channelNum'', JInt k)] = Inr (k, [], [], None, None, JNull, None)
        \<and> hook_extract lib [(''channel'', JObj [(''number'', JInt k)])]
            = Inr (k, [], [], None, None, JNull, None))
   \<and> (s \<noteq> [] \<longrightarrow>
        hook_extract lib [(''channel_name'', JStr s)] = Inr (0, s, [], None, None, JNull, None)
        \<and> hook_extract lib [(''channel'', JObj [(''name'', JStr s)])]
            = Inr (0, s, [], None, None, JNull, None)
        \<and> hook_extract lib [(''now'', JObj [(''title'', JStr s)])]
            = Inr (0, [], s, None, None, JNull, None)
        \<and> hook_extract lib [(''current'', JObj [(''name'', JStr s)])]
            = Inr (0, [], s, None, None, JNull, None)
        \<and> hook_extract lib [(''programme'', JObj [(''title'', JStr s)])]
            = Inr (0, [], s, None, None, JNull, None))"
proof (intro conjI impI)
  show "fst (update_status_socket lib io w orig args kwargs) = orig"
    by (simp add: update_status_socket_def split: sum.splits option.splits json.splits prod.splits)
  show "\<exists>rv payload n c x st en nt ns.
            orig = Inr rv \<and> find_payload args kwargs = Some (JObj payload) \<and> payload \<noteq> []
          \<and> hook_extract lib payload = Inr (n, c, x, st, en, nt, ns) \<and> c \<noteq> [] \<and> x \<noteq> []
          \<and> snd (update_status_socket lib io w orig args kwargs)
              = snd (send_infobar_event lib io w n c x st en nt ns)"
    if "snd (update_status_socket lib io w orig args kwargs) \<noteq> w"
    using that
    by (auto simp: update_status_socket_def
        split: sum.splits option.splits json.splits prod.splits if_splits)
  show "hook_extract lib p = Inr (0, [], [], None, None, JNull, None)"
    if "map_of p ''channel_number'' = None \<and> map_of p ''channelNum'' = None
        \<and> map_of p ''channel'' = None \<and> map_of p ''channel_name'' = None
        \<and> map_of p ''now'' = None \<and> map_of p ''current'' = None
        \<and> map_of p ''programme'' = None \<and> map_of p ''next'' = None
        \<and> map_of p ''up_next'' = None"
    using that by (simp add: hook_extract_absent)
  show "hook_extract lib [(''channel_number'', JInt k)] = Inr (k, [], [], None, None, JNull, None)"
    "hook_extract lib [(''channelNum'', JInt k)] = Inr (k, [], [], None, None, JNull, None)"
    "hook_extract lib [(''channel'', JObj [(''number'', JInt k)])]
            = Inr (k, [], [], None, None, JNull, None)"
    if "k \<noteq> 0"
    using that
    by (simp_all add: hook_extract_channel_number hook_extract_channelNum hook_extract_channel_obj)
  show "hook_extract lib [(''channel_name'', JStr s)] = Inr (0, s, [], None, None, JNull, None)"
    "hook_extract lib [(''channel'', JObj [(''name'', JStr s)])]
            = Inr (0, s, [], None, None, JNull, None)"
    "hook_extract lib [(''now'', JObj [(''title'', JStr s)])]
            = Inr (0, [], s, None, None, JNull, None)"
    if "s \<noteq> []"
    using that
    by (simp_all add: hook_extract_channel_name hook_extract_channel_obj_name hook_extract_now_title)
  show "hook_extract lib [(''current'', JObj [(''name'', JStr s)])]
            = Inr (0, [], s, None, None, JNull, None)" if "s \<noteq> []"
    using that by (simp add: hx)
  show "hook_extract lib [(''programme'', JObj [(''title'', JStr s)])]
            = Inr (0, [], s, None, None, JNull, None)" if "s \<noteq> []"
    using that by (simp add: hx)
qed

lemma hook_extract_status:
  "hook_extract lib
     [(''channel_number'', JInt 3), (''channel_name'', JStr ''TV3''),
      (''now'', JObj [(''title'', JStr ''Movie'')])]
   = Inr (3, ''TV3'', ''Movie'', None, None, JNull, None)"
  by (simp add: hx)

lemma hook_extract_bad_channel:
  "hook_extract lib [(''channel'', JStr ''TV3'')] = Inl AttributeError"
  by (simp add: hx)

theorem update_status_socket_transparent_witness:
  "fst (update_status_socket sample_lib
          \<lparr>clock_ts = 1755374400, utcnow_start = 0, utcnow_end = 0, makedirs_fail = None,
           open_fail = None, write_fail = None, socket_fail = True, sendto_fail = False\<rparr>
          \<lparr>dir_exists = False, event_file = None, datagrams = []\<rparr>
          (Inr (42 :: int))
          [JStr ''status'',
           JObj [(''channel_number'', JInt 3), (''channel_name'', JStr ''TV3''),
                 (''now'', JObj [(''title'', JStr ''Movie'')])]]
          []) = Inr 42
   \<and> dir_exists (snd (update_status_socket sample_lib
          \<lparr>clock_ts = 1755374400, utcnow_start = 0, utcnow_end = 0, makedirs_fail = None,
           open_fail = None, write_fail = None, socket_fail = True, sendto_fail = False\<rparr>
          \<lparr>dir_exists = False, event_file = None, datagrams = []\<rparr>
          (Inr (42 :: int))
          [JStr ''status'',
           JObj [(''channel_number'', JInt 3), (''channel_name'', JStr ''TV3''),
                 (''now'', JObj [(''title'', JStr ''Movie'')])]]
          []))
   \<and> update_status_socket sample_lib
          \<lparr>clock_ts = 1755374400, utcnow_start = 0, utcnow_end = 0, makedirs_fail = None,
           open_fail = None, write_fail = None, socket_fail = True, sendto_fail = False\<rparr>
          \<lparr>dir_exists = False, event_file = None, datagrams = []\<rparr>
          (Inr (42 :: int)) [] [(''status'', JObj [(''channel'', JStr ''TV3'')])]
       = (Inr 42, \<lparr>dir_exists = False, event_file = None, datagrams = []\<rparr>)"
proof -
  let ?io = "\<lparr>clock_ts = 1755374400, utcnow_start = 0, utcnow_end = 0, makedirs_fail = None,
           open_fail = None, write_fail = None, socket_fail = True, sendto_fail = False\<rparr>"
  let ?w = "\<lparr>dir_exists = False, event_file = None, datagrams = []\<rparr>"
  let ?p = "[(''channel_number'', JInt 3), (''channel_name'', JStr ''TV3''),
             (''now'', JObj [(''title'', JStr ''Movie'')])]"
  let ?args = "[JStr ''status'', JObj ?p]"
  let ?r = "update_status_socket sample_lib ?io ?w (Inr (42 :: int)) ?args []"
  let ?q = "update_status_socket sample_lib ?io ?w (Inr (42 :: int)) []
              [(''status'', JObj [(''channel'', JStr ''TV3'')])]"
  have fp: "find_payload ?args [] = Some (JObj ?p)"
    by (simp add: find_payload_def)
  have ev: "?r = (Inr 42, snd (send_infobar_event sample_lib ?io ?w 3 ''TV3'' ''Movie''
                                  None None JNull None))"
    by (simp add: update_status_socket_def fp hook_extract_status)
  have de: "dir_exists (snd ?r)"
    by (simp add: ev send_infobar_event_def Let_def)
  then have changed: "snd ?r \<noteq> ?w" by auto
  note inst = update_status_socket_transparent [where lib = sample_lib and io = ?io and w = ?w
      and orig = "Inr (42 :: int)" and args = ?args and kwargs = "[]"]
  have a: "fst ?r = Inr 42" using inst by blast
  from inst changed obtain n c x st en nt ns pl where
    "find_payload ?args [] = Some (JObj pl)"
    "hook_extract sample_lib pl = Inr (n, c, x, st, en, nt, ns)" "c \<noteq> []" "x \<noteq> []"
    by blast
  have fq: "find_payload [] [(''status'', JObj [(''channel'', JStr ''TV3'')])]
              = Some (JObj [(''channel'', JStr ''TV3'')])"
    by (simp add: find_payload_def)
  have q1: "fst ?q = Inr 42"
    using update_status_socket_transparent [where lib = sample_lib and io = ?io and w = ?w
      and orig = "Inr (42 :: int)" and args = "[]"
      and kwargs = "[(''status'', JObj [(''channel'', JStr ''TV3'')])]"]
    by blast
  have q2: "snd ?q = ?w"
    by (simp add: update_status_socket_def fq hook_extract_bad_channel)
  have q: "?q = (Inr 42, ?w)" using q1 q2 by (simp add: prod_eq_iff)
  show ?thesis using a de q by simp
qed

end
